theory Spec2Isabelle
  imports Main
begin

section \<open>Python values used by the tools\<close>

text \<open>
  Python strings are modelled as HOL strings, one \<open>char\<close> per character; the model
  covers ASCII text, where Python's code points and HOL's characters coincide.
  Exceptions are values: a function that can raise returns \<open>exn + 'a\<close>, with \<open>Inl\<close>
  for the raised exception. \<open>RequestException\<close> stands for
  \<open>requests.exceptions.RequestException\<close> and its subclasses; the other constructors
  are the built-in exceptions that are not request exceptions. The argument is what
  \<open>str(e)\<close> gives.
\<close>

datatype exn =
    RequestException string
  | TypeError string
  | ValueError string
  | AttributeError string

fun exn_str :: "exn \<Rightarrow> string" where
  "exn_str (RequestException m) = m"
| "exn_str (TypeError m) = m"
| "exn_str (ValueError m) = m"
| "exn_str (AttributeError m) = m"

text \<open>
  A key of a JSON object is absent, present with the value \<open>null\<close> (Python's \<open>None\<close>),
  or present with a value.
\<close>

datatype 'a field = Absent | Null | Val 'a

subsection \<open>Strings\<close>

definition sq :: string where
  \<comment> \<open>the single quote character, as a string\<close>
  "sq = [CHR 0x27]"

definition digit_char :: "nat \<Rightarrow> char" where
  "digit_char d = ''0123456789'' ! d"

fun str_nat :: "nat \<Rightarrow> string" where
  "str_nat n = (if n < 10 then [digit_char n] else str_nat (n div 10) @ [digit_char (n mod 10)])"

declare str_nat.simps [simp del]

definition str_int :: "int \<Rightarrow> string" where
  \<comment> \<open>\<open>str(i)\<close>, as an f-string renders an integer\<close>
  "str_int i = (if i < 0 then ''-'' @ str_nat (nat (- i)) else str_nat (nat i))"

fun join :: "string \<Rightarrow> string list \<Rightarrow> string" where
  \<comment> \<open>\<open>sep.join(xs)\<close>\<close>
  "join sep [] = []"
| "join sep [x] = x"
| "join sep (x # y # ys) = x @ sep @ join sep (y # ys)"

fun split :: "char \<Rightarrow> string \<Rightarrow> string list" where
  \<comment> \<open>\<open>s.split(c)\<close> for a one-character separator: never an empty list\<close>
  "split c [] = [[]]"
| "split c (x # xs) =
     (if x = c then [] # split c xs
      else (case split c xs of [] \<Rightarrow> [[x]] | w # ws \<Rightarrow> (x # w) # ws))"

definition replace :: "char \<Rightarrow> string \<Rightarrow> string \<Rightarrow> string" where
  \<comment> \<open>\<open>s.replace(old, new)\<close> for a one-character \<open>old\<close>\<close>
  "replace old new s = concat (map (\<lambda>c. if c = old then new else [c]) s)"

definition lower_char :: "char \<Rightarrow> char" where
  "lower_char c =
     (let n = (of_char c :: nat) in if 65 \<le> n \<and> n \<le> 90 then char_of (n + 32) else c)"

definition lower :: "string \<Rightarrow> string" where
  \<comment> \<open>\<open>s.lower()\<close> on ASCII text\<close>
  "lower s = map lower_char s"

definition startswith :: "string \<Rightarrow> string \<Rightarrow> bool" where
  \<comment> \<open>\<open>s.startswith(p)\<close>\<close>
  "startswith s p = (take (length p) s = p)"

definition py_str :: "string \<Rightarrow> string field \<Rightarrow> string" where
  \<comment> \<open>how an f-string renders \<open>data.get(key, default)\<close> for a string-valued key\<close>
  "py_str dflt f = (case f of Absent \<Rightarrow> dflt | Null \<Rightarrow> ''None'' | Val s \<Rightarrow> s)"

subsection \<open>Dates\<close>

text \<open>
  \<open>datetime.fromisoformat\<close> on the extended format that timestamps of the API have: a
  date \<open>YYYY-MM-DD\<close>, alone or followed by one separator character, a time \<open>HH\<close>,
  \<open>HH:MM\<close> or \<open>HH:MM:SS\<close>, the last with an optional fraction, and an optional
  offset after \<open>+\<close> or \<open>-\<close>, written like a time. A string of another shape is a
  \<open>ValueError\<close> for an invalid isoformat string; a string of this shape with a field out
  of range is the \<open>ValueError\<close> of the constructor for that field. Fractions are read
  and dropped. The other shapes that recent versions of Python read (dates without
  dashes, week dates) are invalid strings here. Only the date is kept, since the tools
  only print \<open>strftime("%Y-%m-%d")\<close>, whose \<open>%Y\<close> prints the year without padding.
\<close>

record date =
  year :: nat
  month :: nat
  day :: nat

definition is_digit :: "char \<Rightarrow> bool" where
  "is_digit c = (c \<in> set ''0123456789'')"

definition digit_val :: "char \<Rightarrow> nat" where
  "digit_val c = of_char c - 48"

definition parse_digits :: "nat \<Rightarrow> string \<Rightarrow> nat option" where
  \<comment> \<open>exactly \<open>k\<close> decimal digits\<close>
  "parse_digits k s =
     (if length s = k \<and> list_all is_digit s
      then Some (foldl (\<lambda>acc c. 10 * acc + digit_val c) 0 s) else None)"

definition is_leap :: "nat \<Rightarrow> bool" where
  "is_leap y = (y mod 4 = 0 \<and> (y mod 100 \<noteq> 0 \<or> y mod 400 = 0))"

definition days_in_month :: "nat \<Rightarrow> nat \<Rightarrow> nat" where
  "days_in_month y m =
     (if m = 2 then (if is_leap y then 29 else 28)
      else if m \<in> {4, 6, 9, 11} then 30 else 31)"

definition parse_date_fields :: "string \<Rightarrow> (nat \<times> nat \<times> nat) option" where
  \<comment> \<open>the shape \<open>YYYY-MM-DD\<close>\<close>
  "parse_date_fields s =
     (case (parse_digits 4 (take 4 s), parse_digits 2 (take 2 (drop 5 s)),
            parse_digits 2 (take 2 (drop 8 s))) of
        (Some y, Some m, Some d) \<Rightarrow>
          if length s = 10 \<and> take 1 (drop 4 s) = ''-'' \<and> take 1 (drop 7 s) = ''-''
          then Some (y, m, d) else None
      | _ \<Rightarrow> None)"

definition parse_time_fields :: "string \<Rightarrow> (nat \<times> nat \<times> nat) option" where
  \<comment> \<open>the shapes \<open>HH\<close>, \<open>HH:MM\<close>, \<open>HH:MM:SS\<close> and \<open>HH:MM:SS.f\<close>\<close>
  "parse_time_fields t =
     (case parse_digits 2 (take 2 t) of
        None \<Rightarrow> None
      | Some h \<Rightarrow>
          if drop 2 t = [] then Some (h, 0, 0)
          else if take 1 (drop 2 t) \<noteq> '':'' then None
          else (case parse_digits 2 (take 2 (drop 3 t)) of
                  None \<Rightarrow> None
                | Some mi \<Rightarrow>
                    if drop 5 t = [] then Some (h, mi, 0)
                    else if take 1 (drop 5 t) \<noteq> '':'' then None
                    else (case parse_digits 2 (take 2 (drop 6 t)) of
                            None \<Rightarrow> None
                          | Some sec \<Rightarrow>
                              if drop 8 t = [] then Some (h, mi, sec)
                              else if (take 1 (drop 8 t) = ''.'' \<or> take 1 (drop 8 t) = '','')
                                      \<and> drop 9 t \<noteq> [] \<and> list_all is_digit (drop 9 t)
                              then Some (h, mi, sec) else None)))"

definition parse_clock :: "string \<Rightarrow> ((nat \<times> nat \<times> nat) \<times> int) option" where
  \<comment> \<open>what follows the date: nothing, or a separator, a time and an optional offset;
      the offset is returned in seconds\<close>
  "parse_clock rest =
     (if rest = [] then Some ((0, 0, 0), 0)
      else (let t = drop 1 rest;
                time_part = takeWhile (\<lambda>c. c \<noteq> CHR ''+'' \<and> c \<noteq> CHR ''-'') t;
                tz_part = dropWhile (\<lambda>c. c \<noteq> CHR ''+'' \<and> c \<noteq> CHR ''-'') t
            in case parse_time_fields time_part of
                 None \<Rightarrow> None
               | Some clock \<Rightarrow>
                   if tz_part = [] then Some (clock, 0)
                   else (case parse_time_fields (drop 1 tz_part) of
                           None \<Rightarrow> None
                         | Some (h, mi, sec) \<Rightarrow>
                             Some (clock,
                                   (if take 1 tz_part = ''-'' then - 1 else 1)
                                     * int (h * 3600 + mi * 60 + sec)))))"

definition timedelta_repr :: "int \<Rightarrow> string" where
  \<comment> \<open>\<open>repr\<close> of a \<open>timedelta\<close> of whole seconds\<close>
  "timedelta_repr t =
     (let days = t div 86400; secs = t mod 86400
      in if days = 0 \<and> secs = 0 then ''datetime.timedelta(0)''
         else ''datetime.timedelta(''
              @ (if days \<noteq> 0 then ''days='' @ str_int days else [])
              @ (if days \<noteq> 0 \<and> secs \<noteq> 0 then '', '' else [])
              @ (if secs \<noteq> 0 then ''seconds='' @ str_int secs else [])
              @ '')'')"

definition check_fields :: "nat \<Rightarrow> nat \<Rightarrow> nat \<Rightarrow> nat \<Rightarrow> nat \<Rightarrow> nat \<Rightarrow> exn + date" where
  \<comment> \<open>the range checks of the \<open>datetime\<close> constructor, in its order\<close>
  "check_fields y m d h mi sec =
     (if y < 1 then Inl (ValueError (''year '' @ str_nat y @ '' is out of range''))
      else if m < 1 \<or> 12 < m then Inl (ValueError ''month must be in 1..12'')
      else if d < 1 \<or> days_in_month y m < d then Inl (ValueError ''day is out of range for month'')
      else if 23 < h then Inl (ValueError ''hour must be in 0..23'')
      else if 59 < mi then Inl (ValueError ''minute must be in 0..59'')
      else if 59 < sec then Inl (ValueError ''second must be in 0..59'')
      else Inr \<lparr>year = y, month = m, day = d\<rparr>)"

definition fromisoformat :: "string \<Rightarrow> exn + date" where
  "fromisoformat s =
     (let invalid = Inl (ValueError (''Invalid isoformat string: '' @ sq @ s @ sq))
      in case parse_date_fields (take 10 s) of
           None \<Rightarrow> invalid
         | Some (y, m, d) \<Rightarrow>
             (case parse_clock (drop 10 s) of
                None \<Rightarrow> invalid
              | Some ((h, mi, sec), offset) \<Rightarrow>
                  if 86400 \<le> \<bar>offset\<bar>
                  then Inl (ValueError
                         (''offset must be a timedelta strictly between -timedelta(hours=24) ''
                          @ ''and timedelta(hours=24), not '' @ timedelta_repr offset @ ''.''))
                  else check_fields y m d h mi sec))"

definition pad :: "nat \<Rightarrow> string \<Rightarrow> string" where
  "pad k s = replicate (k - length s) CHR ''0'' @ s"

definition strftime_ymd :: "date \<Rightarrow> string" where
  \<comment> \<open>\<open>d.strftime("%Y-%m-%d")\<close>\<close>
  "strftime_ymd d =
     str_nat (year d) @ ''-'' @ pad 2 (str_nat (month d)) @ ''-'' @ pad 2 (str_nat (day d))"

section \<open>The HTTP boundary\<close>

text \<open>
  \<open>requests.get\<close> is the only effect of the tools. It is a parameter \<open>net\<close> of each
  tool: a function from the request to the exception it raises or the response it
  returns. A response carries its status code, its text and what \<open>response.json()\<close>
  gives, decoded to the shape of the endpoint, or the exception that decoding raises.
  The process environment is read-only: the token and the clock.
\<close>

record request =
  req_url :: string
  req_headers :: "(string \<times> string) list"
  req_params :: "(string \<times> string option) list"

record 'a response =
  status_code :: int
  "text" :: string
  json :: "exn + 'a"

record env =
  GITHUB_TOKEN :: "string option"
  now_isoformat :: string

record release_data =
  tag_name :: "string field"
  published_at :: "string field"
  html_url :: "string field"
  body :: "string field"

definition get_auth_headers :: "env \<Rightarrow> (string \<times> string) list" where
  "get_auth_headers e =
     (case GITHUB_TOKEN e of
        Some github_token \<Rightarrow>
          if github_token \<noteq> []
          then [(''Accept'', ''application/vnd.github.v3+json''),
                (''Authorization'', ''token '' @ github_token)]
          else [(''Accept'', ''application/vnd.github.v3+json'')]
      | None \<Rightarrow> [(''Accept'', ''application/vnd.github.v3+json'')])"

definition make_api_call ::
  "(request \<Rightarrow> exn + 'a response) \<Rightarrow> string \<Rightarrow> (string \<times> string) list
     \<Rightarrow> (string \<times> string option) list \<Rightarrow> exn + 'a response" where
  "make_api_call net u h p = net \<lparr>req_url = u, req_headers = h, req_params = p\<rparr>"

section \<open>Tool 1: check\_latest\_release\<close>

definition published_date_of :: "string field \<Rightarrow> exn + string" where
  \<comment> \<open>lines 45 to 51: \<open>published_at_str\<close> to \<open>published_date\<close>\<close>
  \<open>published_date_of f =
     (case f of
        Absent \<Rightarrow> Inr ''N/A''
      | Null \<Rightarrow> Inl (AttributeError (sq @ ''NoneType'' @ sq @ '' object has no attribute ''
                              @ sq @ ''replace'' @ sq))
      | Val published_at_str \<Rightarrow>
          if published_at_str \<noteq> ''N/A''
          then (case fromisoformat (replace CHR ''Z'' ''+00:00'' published_at_str) of
                  Inl e \<Rightarrow> Inl e
                | Inr dt \<Rightarrow> Inr (strftime_ymd dt))
          else Inr ''N/A'')\<close>

definition body_snippet_of :: "string field \<Rightarrow> exn + string" where
  \<comment> \<open>line 53: \<open>data.get('body', '')[:100].replace('\n', ' ') + '...'\<close>\<close>
  \<open>body_snippet_of f =
     (case f of
        Absent \<Rightarrow> Inr (replace CHR ''\<newline>'' '' '' (take 100 '''') @ ''...'')
      | Null \<Rightarrow> Inl (TypeError (sq @ ''NoneType'' @ sq @ '' object is not subscriptable''))
      | Val b \<Rightarrow> Inr (replace CHR ''\<newline>'' '' '' (take 100 b) @ ''...''))\<close>

definition latest_release_request :: "env \<Rightarrow> string \<Rightarrow> string \<Rightarrow> request" where
  "latest_release_request e org_name repo_name =
     \<lparr>req_url = ''https://api.github.com/repos/'' @ org_name @ ''/'' @ repo_name
                 @ ''/releases/latest'',
      req_headers = get_auth_headers e,
      req_params = []\<rparr>"

definition check_latest_release_try ::
  "env \<Rightarrow> (request \<Rightarrow> exn + release_data response) \<Rightarrow> string \<Rightarrow> string \<Rightarrow> exn + string" where
  \<open>check_latest_release_try e net org_name repo_name =
     (let rq = latest_release_request e org_name repo_name
      in case make_api_call net (req_url rq) (req_headers rq) (req_params rq) of
           Inl ex \<Rightarrow> Inl ex
         | Inr response \<Rightarrow>
             if status_code response = 404
             then Inr (''ERROR: Repository '' @ org_name @ ''/'' @ repo_name
                        @ '' not found or has no releases.'')
             else if status_code response = 403
             then Inr ''ERROR: GitHub API failed with status code 403. Check GITHUB_TOKEN and rate limit.''
             else if status_code response \<noteq> 200
             then Inr (''ERROR: GitHub API failed with status code ''
                        @ str_int (status_code response) @ ''.'')
             else (case json response of
                     Inl ex \<Rightarrow> Inl ex
                   | Inr data \<Rightarrow>
                       let version = py_str ''N/A'' (tag_name data);
                           release_url = py_str ''N/A'' (html_url data)
                       in (case published_date_of (published_at data) of
                             Inl ex \<Rightarrow> Inl ex
                           | Inr published_date \<Rightarrow>
                               (case body_snippet_of (body data) of
                                  Inl ex \<Rightarrow> Inl ex
                                | Inr body_snippet \<Rightarrow>
                                    Inr (''SUCCESS: **'' @ org_name @ ''/'' @ repo_name
                                         @ ''** Latest Release: **'' @ version @ ''** | ''
                                         @ ''Published: '' @ published_date @ ''. ''
                                         @ ''Release URL: '' @ release_url @ ''. ''
                                         @ ''Notes Snippet: "'' @ body_snippet @ ''"'')))))\<close>

definition check_latest_release ::
  "env \<Rightarrow> (request \<Rightarrow> exn + release_data response) \<Rightarrow> string \<Rightarrow> string \<Rightarrow> exn + string" where
  \<comment> \<open>the handler is \<open>except requests.exceptions.RequestException\<close>: any other
      exception leaves the function\<close>
  "check_latest_release e net org_name repo_name =
     (case check_latest_release_try e net org_name repo_name of
        Inl (RequestException m) \<Rightarrow> Inr (''TOOL_ERROR: Network or connection issue: '' @ m)
      | Inl ex \<Rightarrow> Inl ex
      | Inr s \<Rightarrow> Inr s)"

section \<open>Tool 2: get\_dependency\_file\<close>

definition raw_headers :: "env \<Rightarrow> (string \<times> string) list" where
  "raw_headers e =
     (case GITHUB_TOKEN e of
        Some github_token \<Rightarrow>
          if github_token \<noteq> []
          then [(''Accept'', ''application/vnd.github.v3.raw''),
                (''Authorization'', ''token '' @ github_token)]
          else [(''Accept'', ''application/vnd.github.v3.raw'')]
      | None \<Rightarrow> [(''Accept'', ''application/vnd.github.v3.raw'')])"

definition contents_request :: "env \<Rightarrow> string \<Rightarrow> string \<Rightarrow> string \<Rightarrow> request" where
  "contents_request e org_name repo_name file_path =
     \<lparr>req_url = ''https://api.github.com/repos/'' @ org_name @ ''/'' @ repo_name
                 @ ''/contents/'' @ file_path,
      req_headers = raw_headers e,
      req_params = []\<rparr>"

definition get_dependency_file_try ::
  "env \<Rightarrow> (request \<Rightarrow> exn + unit response) \<Rightarrow> string \<Rightarrow> string \<Rightarrow> string \<Rightarrow> exn + string" where
  \<open>get_dependency_file_try e net org_name repo_name file_path =
     (let rq = contents_request e org_name repo_name file_path
      in case make_api_call net (req_url rq) (req_headers rq) (req_params rq) of
           Inl ex \<Rightarrow> Inl ex
         | Inr response \<Rightarrow>
             if status_code response = 404
             then Inr (''ERROR: File '' @ sq @ file_path @ sq @ '' not found in '' @ org_name @ ''/''
                        @ repo_name @ ''.'')
             else if status_code response = 403
             then Inr ''ERROR: GitHub API failed with status code 403. Check GITHUB_TOKEN and rate limit.''
             else if status_code response \<noteq> 200
             then Inr (''ERROR: GitHub API failed with status code ''
                        @ str_int (status_code response) @ ''.'')
             else (let content_text = text response;
                       lines = split CHR ''\<newline>'' content_text;
                       snippet = join ''\<newline>'' (take 10 lines)
                   in Inr (''SUCCESS: Content of `'' @ file_path @ ''`:\<newline>```\<newline>''
                            @ snippet @ ''\<newline>```'')))\<close>

definition get_dependency_file ::
  "env \<Rightarrow> (request \<Rightarrow> exn + unit response) \<Rightarrow> string \<Rightarrow> string \<Rightarrow> string \<Rightarrow> exn + string" where
  \<comment> \<open>the handler is \<open>except Exception\<close>\<close>
  "get_dependency_file e net org_name repo_name file_path =
     (case get_dependency_file_try e net org_name repo_name file_path of
        Inl ex \<Rightarrow> Inr (''TOOL_ERROR: Could not process file content. Error: '' @ exn_str ex)
      | Inr s \<Rightarrow> Inr s)"

section \<open>Tool 3: get\_release\_prs\<close>

subsection \<open>Fetching the merged pull requests\<close>

text \<open>
  An item of the issues endpoint, with the keys the code reads. \<open>item_labels\<close> holds the
  \<open>name\<close> of each label object, or \<open>None\<close> when the key \<open>labels\<close> is absent;
  \<open>item_pull_request\<close> is \<open>None\<close> when the item has no key \<open>pull_request\<close>.
\<close>

record pull_request_marker =
  merged_at :: "string field"

record issue =
  item_number :: int
  item_title :: string
  item_labels :: "string list option"
  item_html_url :: string
  item_pull_request :: "pull_request_marker option"

record pr =
  number :: int
  title :: string
  labels :: "string list"
  url :: string

definition is_merged_pr :: "issue \<Rightarrow> bool" where
  \<comment> \<open>line 128: the key is present and \<open>merged_at\<close> is truthy\<close>
  "is_merged_pr item =
     (case item_pull_request item of
        None \<Rightarrow> False
      | Some m \<Rightarrow> (case merged_at m of Val s \<Rightarrow> s \<noteq> [] | _ \<Rightarrow> False))"

definition pr_of_item :: "issue \<Rightarrow> pr" where
  "pr_of_item item =
     \<lparr>number = item_number item, title = item_title item,
      labels = (case item_labels item of None \<Rightarrow> [] | Some ls \<Rightarrow> ls),
      url = item_html_url item\<rparr>"

fun collect_prs :: "issue list \<Rightarrow> pr list \<Rightarrow> pr list" where
  \<comment> \<open>the loop of lines 125 to 134, with the list \<open>prs\<close> built so far\<close>
  "collect_prs [] prs = prs"
| "collect_prs (item # items) prs =
     collect_prs items (if is_merged_pr item then prs @ [pr_of_item item] else prs)"

definition per_page :: nat where
  "per_page = 50"

definition issues_params :: "string option \<Rightarrow> (string \<times> string option) list" where
  "issues_params published_date =
     [(''state'', Some ''closed''), (''sort'', Some ''updated''), (''direction'', Some ''desc''),
      (''since'', published_date), (''per_page'', Some (str_nat per_page))]"

definition issues_request :: "env \<Rightarrow> string \<Rightarrow> string \<Rightarrow> string option \<Rightarrow> request" where
  "issues_request e org_name repo_name published_date =
     \<lparr>req_url = ''https://api.github.com/repos/'' @ org_name @ ''/'' @ repo_name @ ''/issues'',
      req_headers = get_auth_headers e,
      req_params = issues_params published_date\<rparr>"

definition fetch_merged_prs ::
  "env \<Rightarrow> (request \<Rightarrow> exn + issue list response) \<Rightarrow> string \<Rightarrow> string \<Rightarrow> string option
     \<Rightarrow> exn + pr list" where
  "fetch_merged_prs e net org_name repo_name published_date =
     (let rq = issues_request e org_name repo_name published_date
      in case make_api_call net (req_url rq) (req_headers rq) (req_params rq) of
           Inl ex \<Rightarrow> Inl ex
         | Inr response \<Rightarrow>
             if status_code response \<noteq> 200 then Inr []
             else (case json response of
                     Inl ex \<Rightarrow> Inl ex
                   | Inr all_closed_items \<Rightarrow> Inr (collect_prs all_closed_items [])))"

subsection \<open>Categorizing\<close>

definition BUG_KEYWORDS :: "string list" where
  "BUG_KEYWORDS = [''bug'', ''fix'', ''defect'', ''hotfix'']"

definition ENHANCEMENT_KEYWORDS :: "string list" where
  "ENHANCEMENT_KEYWORDS = [''feature'', ''enhancement'', ''new'', ''feat'']"

definition any_keyword :: "string list \<Rightarrow> pr \<Rightarrow> bool" where
  \<comment> \<open>\<open>any(kw in labels_lower for kw in KEYWORDS)\<close>\<close>
  "any_keyword kws p = (let labels_lower = map lower (labels p) in list_ex (\<lambda>kw. kw \<in> set labels_lower) kws)"

definition is_bug_fix :: "pr \<Rightarrow> bool" where
  \<comment> \<open>the condition of line 181\<close>
  "is_bug_fix p = (any_keyword BUG_KEYWORDS p \<or> startswith (lower (title p)) ''fix'')"

definition is_enhancement :: "pr \<Rightarrow> bool" where
  \<comment> \<open>the condition of line 183\<close>
  "is_enhancement p = (any_keyword ENHANCEMENT_KEYWORDS p \<or> startswith (lower (title p)) ''feat'')"

definition pr_line :: "pr \<Rightarrow> string" where
  "pr_line p = ''#'' @ str_int (number p) @ '': '' @ title p"

text \<open>
  The dictionary \<open>summary\<close> keeps its keys in insertion order, which the report
  follows: an association list.
\<close>

type_synonym summary = "(string \<times> string list) list"

definition summary0 :: summary where
  "summary0 = [(''Bug Fixes'', []), (''Enhancements/Features'', []), (''Other Changes'', [])]"

definition append_to :: "string \<Rightarrow> string \<Rightarrow> summary \<Rightarrow> summary" where
  \<comment> \<open>\<open>summary[key].append(item)\<close>\<close>
  "append_to key item s = map (\<lambda>(k, v). if k = key then (k, v @ [item]) else (k, v)) s"

fun categorize :: "pr list \<Rightarrow> summary \<Rightarrow> summary" where
  \<comment> \<open>the loop of lines 177 to 186\<close>
  "categorize [] s = s"
| "categorize (p # ps) s =
     categorize ps
       (if is_bug_fix p then append_to ''Bug Fixes'' (pr_line p) s
        else if is_enhancement p then append_to ''Enhancements/Features'' (pr_line p) s
        else append_to ''Other Changes'' (pr_line p) s)"

definition bucket_of :: "pr \<Rightarrow> string" where
  \<comment> \<open>the key that the loop body selects for a pull request\<close>
  "bucket_of p =
     (if is_bug_fix p then ''Bug Fixes''
      else if is_enhancement p then ''Enhancements/Features''
      else ''Other Changes'')"

subsection \<open>The report\<close>

fun sections :: "summary \<Rightarrow> string list" where
  \<comment> \<open>the loop of lines 194 to 197\<close>
  "sections [] = []"
| "sections ((category, items) # rest) =
     (if items \<noteq> []
      then (''\<newline>--- '' @ category @ '' ('' @ str_nat (length items) @ '') ---'') # items
      else []) @ sections rest"

definition release_report :: "string \<Rightarrow> string \<Rightarrow> string \<Rightarrow> pr list \<Rightarrow> string" where
  \<comment> \<open>lines 164 to 199\<close>
  "release_report org_name repo_name tag all_prs =
     (if all_prs = []
      then ''SUCCESS: Found no recently merged Pull Requests for release `'' @ tag @ ''`.''
      else (let summary = categorize all_prs summary0;
                output_parts =
                  [''SUCCESS: Analysis for '' @ org_name @ ''/'' @ repo_name @ '' release `''
                     @ tag @ ''`:'',
                   ''Total Relevant PRs Found: '' @ str_nat (length all_prs)]
                  @ sections summary
            in join ''\<newline>'' output_parts))"

definition release_request :: "env \<Rightarrow> string \<Rightarrow> string \<Rightarrow> string \<Rightarrow> request" where
  "release_request e org_name repo_name tag =
     \<lparr>req_url = ''https://api.github.com/repos/'' @ org_name @ ''/'' @ repo_name
                 @ ''/releases/tags/'' @ tag,
      req_headers = get_auth_headers e,
      req_params = []\<rparr>"

definition published_date_str_of :: "env \<Rightarrow> release_data \<Rightarrow> string option" where
  \<comment> \<open>line 153: \<open>release_data.get('published_at', datetime.now().isoformat())\<close>;
      \<open>None\<close> is Python's \<open>None\<close>, for a \<open>null\<close> in the JSON\<close>
  "published_date_str_of e release_data =
     (case published_at release_data of
        Absent \<Rightarrow> Some (now_isoformat e)
      | Null \<Rightarrow> None
      | Val s \<Rightarrow> Some s)"

definition get_release_prs ::
  "env \<Rightarrow> (request \<Rightarrow> exn + release_data response) \<Rightarrow> (request \<Rightarrow> exn + issue list response)
     \<Rightarrow> string \<Rightarrow> string \<Rightarrow> string \<Rightarrow> exn + string" where
  \<comment> \<open>the release lookup and its \<open>json()\<close> are outside the \<open>try\<close>; only the fetch of
      the pull requests is inside, with \<open>except Exception\<close>\<close>
  "get_release_prs e net_release net_issues org_name repo_name tag =
     (let rq = release_request e org_name repo_name tag
      in case make_api_call net_release (req_url rq) (req_headers rq) (req_params rq) of
           Inl ex \<Rightarrow> Inl ex
         | Inr release_response \<Rightarrow>
             if status_code release_response \<noteq> 200
             then Inr (''ERROR: Could not find release tag `'' @ tag
                        @ ''` for categorization. Status: ''
                        @ str_int (status_code release_response) @ ''.'')
             else (case json release_response of
                     Inl ex \<Rightarrow> Inl ex
                   | Inr release_data \<Rightarrow>
                       let published_date_str = published_date_str_of e release_data
                       in (case fetch_merged_prs e net_issues org_name repo_name published_date_str of
                             Inl ex \<Rightarrow>
                               Inr (''TOOL_ERROR: Failed to fetch PRs for release. Error: ''
                                     @ exn_str ex)
                           | Inr all_prs \<Rightarrow>
                               Inr (release_report org_name repo_name tag all_prs))))"

section \<open>The orchestration loop\<close>

text \<open>
  A function call of the model carries a tool name and keyword arguments (strings, as
  the declared schemas say). A result part is what \<open>Part.from_function_response\<close>
  builds: the name and the response dictionary.
\<close>

record function_call =
  name :: string
  args :: "(string \<times> string) list"

datatype part = FunctionResponse string "(string \<times> string) list"

record model_response =
  function_calls :: "function_call list"
  response_text :: string

record world =
  process_env :: env
  net_release :: "request \<Rightarrow> exn + release_data response"
  net_file :: "request \<Rightarrow> exn + unit response"
  net_issues :: "request \<Rightarrow> exn + issue list response"

text \<open>
  \<open>AVAILABLE_TOOLS[function_name](**args)\<close>: the call binds the keyword arguments to
  the parameters of the function, all of them required. It raises \<open>TypeError\<close> for the
  first keyword that is no parameter, and otherwise for the parameters that are
  missing.
\<close>

definition unexpected_keywords :: "string list \<Rightarrow> (string \<times> string) list \<Rightarrow> string list" where
  "unexpected_keywords names kwargs = filter (\<lambda>k. k \<notin> set names) (map fst kwargs)"

definition missing_arguments :: "string list \<Rightarrow> (string \<times> string) list \<Rightarrow> string list" where
  "missing_arguments names kwargs = filter (\<lambda>n. map_of kwargs n = None) names"

fun name_list :: "string list \<Rightarrow> string" where
  \<comment> \<open>how the message lists the missing names\<close>
  "name_list [] = []"
| "name_list [a] = sq @ a @ sq"
| "name_list [a, b] = sq @ a @ sq @ '' and '' @ sq @ b @ sq"
| "name_list [a, b, c] = sq @ a @ sq @ '', '' @ sq @ b @ sq @ '', and '' @ sq @ c @ sq"
| "name_list (a # b # c # d # ds) = sq @ a @ sq @ '', '' @ name_list (b # c # d # ds)"

definition unexpected_error :: "string \<Rightarrow> string \<Rightarrow> exn" where
  "unexpected_error fname k =
     TypeError (fname @ ''() got an unexpected keyword argument '' @ sq @ k @ sq)"

definition missing_error :: "string \<Rightarrow> string list \<Rightarrow> exn" where
  "missing_error fname ms =
     TypeError (fname @ ''() missing '' @ str_nat (length ms) @ '' required positional argument''
                @ (if length ms = 1 then [] else ''s'') @ '': '' @ name_list ms)"

definition call_check_latest_release :: "world \<Rightarrow> (string \<times> string) list \<Rightarrow> exn + string" where
  "call_check_latest_release w kwargs =
     (case unexpected_keywords [''org_name'', ''repo_name''] kwargs of
        k # _ \<Rightarrow> Inl (unexpected_error ''check_latest_release'' k)
      | [] \<Rightarrow>
          (case (map_of kwargs ''org_name'', map_of kwargs ''repo_name'') of
             (Some org_name, Some repo_name) \<Rightarrow>
               check_latest_release (process_env w) (net_release w) org_name repo_name
           | _ \<Rightarrow> Inl (missing_error ''check_latest_release''
                          (missing_arguments [''org_name'', ''repo_name''] kwargs))))"

definition call_get_dependency_file :: "world \<Rightarrow> (string \<times> string) list \<Rightarrow> exn + string" where
  "call_get_dependency_file w kwargs =
     (case unexpected_keywords [''org_name'', ''repo_name'', ''file_path''] kwargs of
        k # _ \<Rightarrow> Inl (unexpected_error ''get_dependency_file'' k)
      | [] \<Rightarrow>
          (case (map_of kwargs ''org_name'', map_of kwargs ''repo_name'',
                 map_of kwargs ''file_path'') of
             (Some org_name, Some repo_name, Some file_path) \<Rightarrow>
               get_dependency_file (process_env w) (net_file w) org_name repo_name file_path
           | _ \<Rightarrow> Inl (missing_error ''get_dependency_file''
                          (missing_arguments [''org_name'', ''repo_name'', ''file_path''] kwargs))))"

definition call_get_release_prs :: "world \<Rightarrow> (string \<times> string) list \<Rightarrow> exn + string" where
  "call_get_release_prs w kwargs =
     (case unexpected_keywords [''org_name'', ''repo_name'', ''tag_name''] kwargs of
        k # _ \<Rightarrow> Inl (unexpected_error ''get_release_prs'' k)
      | [] \<Rightarrow>
          (case (map_of kwargs ''org_name'', map_of kwargs ''repo_name'',
                 map_of kwargs ''tag_name'') of
             (Some org_name, Some repo_name, Some tag) \<Rightarrow>
               get_release_prs (process_env w) (net_release w) (net_issues w)
                 org_name repo_name tag
           | _ \<Rightarrow> Inl (missing_error ''get_release_prs''
                          (missing_arguments [''org_name'', ''repo_name'', ''tag_name''] kwargs))))"

definition AVAILABLE_TOOLS ::
  "world \<Rightarrow> string \<Rightarrow> ((string \<times> string) list \<Rightarrow> exn + string) option" where
  "AVAILABLE_TOOLS w =
     [''check_latest_release'' \<mapsto> call_check_latest_release w,
      ''get_dependency_file'' \<mapsto> call_get_dependency_file w,
      ''get_release_prs'' \<mapsto> call_get_release_prs w]"

definition tool_result :: "world \<Rightarrow> function_call \<Rightarrow> exn + part" where
  \<comment> \<open>lines 123 to 144, for one function call\<close>
  "tool_result w function_call =
     (let function_name = name function_call; kwargs = args function_call
      in case AVAILABLE_TOOLS w function_name of
           Some tool \<Rightarrow>
             (case tool kwargs of
                Inl ex \<Rightarrow> Inl ex
              | Inr tool_output \<Rightarrow>
                  Inr (FunctionResponse function_name [(''output'', tool_output)]))
         | None \<Rightarrow>
             Inr (FunctionResponse function_name
                    [(''error'', ''Function '' @ function_name @ '' not found.'')]))"

fun run_round :: "world \<Rightarrow> function_call list \<Rightarrow> part list \<Rightarrow> exn + part list" where
  \<comment> \<open>the inner loop of lines 122 to 144, with the list \<open>tool_results\<close> built so far\<close>
  "run_round w [] tool_results = Inr tool_results"
| "run_round w (function_call # rest) tool_results =
     (case tool_result w function_call of
        Inl ex \<Rightarrow> Inl ex
      | Inr p \<Rightarrow> run_round w rest (tool_results @ [p]))"

text \<open>
  The chat session is a function \<open>chat\<close> from the batches sent so far to the next
  model response, or to the exception \<open>send_message\<close> raises. The state holds the call
  counter and the batches sent. The outer loop has no bound in the source, so the
  model takes fuel: \<open>None\<close> is the loop still running when the fuel is used up.
\<close>

record session_state =
  gemini_calls :: nat
  sent :: "part list list"

fun handle_tool_call ::
  "nat \<Rightarrow> world \<Rightarrow> (part list list \<Rightarrow> exn + model_response) \<Rightarrow> session_state
     \<Rightarrow> model_response \<Rightarrow> (exn + model_response \<times> session_state) option" where
  "handle_tool_call fuel w chat st response =
     (if function_calls response = []
      then Some (Inr (response, st\<lparr>gemini_calls := gemini_calls st + 1\<rparr>))
      else (case fuel of
              0 \<Rightarrow> None
            | Suc k \<Rightarrow>
                (case run_round w (function_calls response) [] of
                   Inl ex \<Rightarrow> Some (Inl ex)
                 | Inr tool_results \<Rightarrow>
                     let st' = st\<lparr>gemini_calls := gemini_calls st + 1,
                                  sent := sent st @ [tool_results]\<rparr>
                     in (case chat (sent st') of
                           Inl ex \<Rightarrow> Some (Inl ex)
                         | Inr response' \<Rightarrow> handle_tool_call k w chat st' response'))))"

declare handle_tool_call.simps [simp del]

section \<open>The rules of the categorizer, in the words of the specification\<close>

text \<open>
  The specification says that a label matches a keyword when the two are equal up to
  the case of the letters of the label, and that a title matches a prefix in the same
  way. These definitions say so letter by letter, without the lower-casing of the
  code; the categorizer is compared with them below.
\<close>

definition same_letter :: "char \<Rightarrow> char \<Rightarrow> bool" where
  "same_letter a b =
     (a = b \<or> (a, b) \<in> set (zip ''ABCDEFGHIJKLMNOPQRSTUVWXYZ'' ''abcdefghijklmnopqrstuvwxyz''))"

definition equal_ignoring_case :: "string \<Rightarrow> string \<Rightarrow> bool" where
  \<comment> \<open>for a keyword in lower case\<close>
  "equal_ignoring_case s kw = list_all2 same_letter s kw"

definition spec_label_match :: "string list \<Rightarrow> pr \<Rightarrow> bool" where
  "spec_label_match kws p = list_ex (\<lambda>l. list_ex (equal_ignoring_case l) kws) (labels p)"

definition spec_title_starts :: "string \<Rightarrow> pr \<Rightarrow> bool" where
  "spec_title_starts kw p = equal_ignoring_case (take (length kw) (title p)) kw"

definition spec_rule1 :: "pr \<Rightarrow> bool" where
  "spec_rule1 p =
     (spec_label_match [''bug'', ''fix'', ''defect'', ''hotfix''] p \<or> spec_title_starts ''fix'' p)"

definition spec_rule2 :: "pr \<Rightarrow> bool" where
  "spec_rule2 p =
     (spec_label_match [''feature'', ''enhancement'', ''new'', ''feat''] p
      \<or> spec_title_starts ''feat'' p)"

section \<open>Scenarios\<close>

text \<open>
  The status prefixes of the tool results, and the concrete inputs on which the
  theorems below are evaluated.
\<close>

definition status_prefix :: "string \<Rightarrow> bool" where
  "status_prefix s = (startswith s ''SUCCESS:'' \<or> startswith s ''ERROR:'' \<or> startswith s ''TOOL_ERROR:'')"

definition env0 :: env where
  "env0 = \<lparr>GITHUB_TOKEN = None, now_isoformat = ''2026-01-01T00:00:00''\<rparr>"

definition net_down :: "request \<Rightarrow> exn + 'a response" where
  "net_down rq = Inl (RequestException ''Connection refused'')"

definition vault_release :: "release_data response" where
  \<open>vault_release =
     \<lparr>status_code = 200, text = [],
      json = Inr \<lparr>tag_name = Val ''v1.16.0'', published_at = Val ''2024-04-10T12:00:00Z'',
                  html_url = Val ''https://...'', body = Val ''Improvements...''\<rparr>\<rparr>\<close>

definition null_body_release :: "release_data response" where
  \<open>null_body_release =
     \<lparr>status_code = 200, text = [],
      json = Inr \<lparr>tag_name = Val ''v1.16.0'', published_at = Val ''2024-04-10T12:00:00Z'',
                  html_url = Val ''https://...'', body = Null\<rparr>\<rparr>\<close>

definition both_labels_pr :: pr where
  "both_labels_pr = \<lparr>number = 9, title = ''Add retry'', labels = [''Feature'', ''BUG''], url = ''https://github.com/o/r/pull/9''\<rparr>"

definition bugfix_label_pr :: pr where
  "bugfix_label_pr = \<lparr>number = 11, title = ''Update docs'', labels = [''bugfix''], url = ''https://github.com/o/r/pull/11''\<rparr>"

definition not_found :: "'a response" where
  "not_found = \<lparr>status_code = 404, text = ''Not Found'', json = Inl (RequestException ''Expecting value'')\<rparr>"

definition vault_net :: "request \<Rightarrow> exn + release_data response" where
  "vault_net rq =
     (if req_url rq = ''https://api.github.com/repos/hashicorp/vault/releases/latest''
         \<or> req_url rq = ''https://api.github.com/repos/hashicorp/vault/releases/tags/v1.16.0''
      then Inr vault_release else Inr not_found)"

definition merged_item :: issue where
  "merged_item =
     \<lparr>item_number = 5, item_title = ''Fix null pointer'', item_labels = Some [],
      item_html_url = ''https://github.com/hashicorp/vault/pull/5'',
      item_pull_request = Some \<lparr>merged_at = Val ''2024-04-11T09:30:00Z''\<rparr>\<rparr>"

definition scenario3_items :: "issue list" where
  "scenario3_items =
     [merged_item,
      \<lparr>item_number = 6, item_title = ''Add dark mode'', item_labels = Some [''feature''],
       item_html_url = ''https://github.com/hashicorp/vault/pull/6'',
       item_pull_request = Some \<lparr>merged_at = Val ''2024-04-12T10:00:00Z''\<rparr>\<rparr>,
      \<lparr>item_number = 7, item_title = ''Update docs'', item_labels = None,
       item_html_url = ''https://github.com/hashicorp/vault/pull/7'',
       item_pull_request = Some \<lparr>merged_at = Val ''2024-04-12T11:00:00Z''\<rparr>\<rparr>,
      \<lparr>item_number = 8, item_title = ''Crash on start'', item_labels = Some [''bug''],
       item_html_url = ''https://github.com/hashicorp/vault/issues/8'',
       item_pull_request = None\<rparr>,
      \<lparr>item_number = 10, item_title = ''Closed without merge'', item_labels = Some [],
       item_html_url = ''https://github.com/hashicorp/vault/pull/10'',
       item_pull_request = Some \<lparr>merged_at = Null\<rparr>\<rparr>]"

definition requested_page_size :: "request \<Rightarrow> nat" where
  \<comment> \<open>the page size a request asks for; the API's default is 30\<close>
  "requested_page_size rq =
     (case map_of (req_params rq) ''per_page'' of
        Some (Some n) \<Rightarrow> (case parse_digits (length n) n of Some k \<Rightarrow> k | None \<Rightarrow> 30)
      | _ \<Rightarrow> 30)"

definition issues_page :: "issue list \<Rightarrow> request \<Rightarrow> exn + issue list response" where
  \<comment> \<open>a server that holds \<open>items\<close> and answers with one page of the requested size\<close>
  "issues_page items rq =
     (if req_url rq = ''https://api.github.com/repos/hashicorp/vault/issues''
      then Inr \<lparr>status_code = 200, text = [],
                json = Inr (take (requested_page_size rq) items)\<rparr>
      else Inr not_found)"

definition package_json_lines :: "string list" where
  \<open>package_json_lines =
     [''{'', ''  "name": "grafana",'', ''  "version": "10.4.0",'', ''  "private": true,'',
      ''  "license": "AGPL-3.0",'', ''  "scripts": {'', ''    "build": "webpack",'',
      ''    "test": "jest",'', ''    "lint": "eslint ."'', ''  },'', ''  "dependencies": {'',
      ''    "react": "18.2.0",'', ''    "rxjs": "7.8.1",'', ''    "d3": "7.8.5"'',
      ''  },'', ''  "devDependencies": {'', ''    "jest": "29.7.0",'',
      ''    "webpack": "5.90.0"'', ''  }'', ''}'']\<close>

definition package_json_text :: string where
  \<open>package_json_text =
     ''{\<newline>  "name": "grafana",\<newline>  "version": "10.4.0",\<newline>  "private": true,\<newline>  "license": "AGPL-3.0",\<newline>  "scripts": {\<newline>    "build": "webpack",\<newline>    "test": "jest",\<newline>    "lint": "eslint ."\<newline>  },\<newline>  "dependencies": {\<newline>    "react": "18.2.0",\<newline>    "rxjs": "7.8.1",\<newline>    "d3": "7.8.5"\<newline>  },\<newline>  "devDependencies": {\<newline>    "jest": "29.7.0",\<newline>    "webpack": "5.90.0"\<newline>  }\<newline>}''\<close>

definition package_json_net :: "request \<Rightarrow> exn + unit response" where
  "package_json_net rq =
     (if req_url rq = ''https://api.github.com/repos/grafana/grafana/contents/package.json''
      then Inr \<lparr>status_code = 200, text = package_json_text, json = Inr ()\<rparr>
      else Inr not_found)"

definition mixed_case_prs :: "pr list" where
  "mixed_case_prs =
     [\<lparr>number = 11, title = ''Update docs'', labels = [''BugFix''],
       url = ''https://github.com/o/r/pull/11''\<rparr>,
      \<lparr>number = 12, title = ''Improve login'', labels = [''HotFix''],
       url = ''https://github.com/o/r/pull/12''\<rparr>,
      \<lparr>number = 13, title = ''Tidy up'', labels = [''bug-report'', ''NEW''],
       url = ''https://github.com/o/r/pull/13''\<rparr>,
      \<lparr>number = 14, title = ''FEAT: dark mode'', labels = [],
       url = ''https://github.com/o/r/pull/14''\<rparr>]"

definition scenario3_prs :: "pr list" where
  "scenario3_prs =
     [\<lparr>number = 5, title = ''Fix null pointer'', labels = [],
       url = ''https://github.com/hashicorp/vault/pull/5''\<rparr>,
      \<lparr>number = 6, title = ''Add dark mode'', labels = [''feature''],
       url = ''https://github.com/hashicorp/vault/pull/6''\<rparr>,
      \<lparr>number = 7, title = ''Update docs'', labels = [],
       url = ''https://github.com/hashicorp/vault/pull/7''\<rparr>]"

definition world0 :: world where
  "world0 = \<lparr>process_env = env0, net_release = vault_net, net_file = package_json_net,
             net_issues = issues_page scenario3_items\<rparr>"

definition chat0 :: "part list list \<Rightarrow> exn + model_response" where
  "chat0 batches = Inr \<lparr>function_calls = [], response_text = ''Vault v1.16.0 is the latest release.''\<rparr>"

definition round0 :: model_response where
  "round0 =
     \<lparr>function_calls =
        [\<lparr>name = ''check_latest_release'',
          args = [(''org_name'', ''hashicorp''), (''repo_name'', ''vault'')]\<rparr>,
         \<lparr>name = ''delete_repo'', args = [(''org_name'', ''hashicorp'')]\<rparr>],
      response_text = []\<rparr>"

definition bad_round :: model_response where
  "bad_round =
     \<lparr>function_calls =
        [\<lparr>name = ''check_latest_release'', args = [(''org_name'', ''hashicorp'')]\<rparr>],
      response_text = []\<rparr>"

section \<open>Properties\<close>

lemma startswith_append: "startswith (p @ s) p"
  by (simp add: startswith_def)

lemma startswith_Cons: "startswith (c # s) (d # p) = (c = d \<and> startswith s p)"
  by (simp add: startswith_def)

lemma startswith_Nil: "startswith s []"
  by (simp add: startswith_def)

lemma make_api_call_request:
  "make_api_call net (req_url rq) (req_headers rq) (req_params rq) = net rq"
  by (cases rq) (simp add: make_api_call_def)

text \<open>
  Where the tools do keep their word: \<open>get_dependency_file\<close> catches every exception,
  so it always returns a string with a status prefix; the other two tools return a
  string with a status prefix whenever they return; and a release lookup that answers
  404 for the tag gives an \<open>ERROR:\<close> result.
\<close>

lemma get_dependency_file_total:
  "\<exists>s. get_dependency_file e net org_name repo_name file_path = Inr s \<and> status_prefix s"
  by (simp add: get_dependency_file_def get_dependency_file_try_def status_prefix_def
      startswith_Cons startswith_Nil Let_def split: sum.split)

lemma check_latest_release_prefix:
  "check_latest_release e net org_name repo_name = Inr s \<Longrightarrow> status_prefix s"
  by (auto simp add: check_latest_release_def check_latest_release_try_def status_prefix_def
      startswith_Cons startswith_Nil Let_def split: sum.splits exn.splits if_splits)

lemma join_Cons: "join sep (x # xs) = x @ (if xs = [] then [] else sep @ join sep xs)"
  by (cases xs) simp_all

lemma release_report_prefix: "startswith (release_report org_name repo_name tag all_prs) ''SUCCESS:''"
  by (simp add: release_report_def Let_def join_Cons startswith_Cons startswith_Nil del: join.simps)

lemma get_release_prs_prefix:
  "get_release_prs e nr ni org_name repo_name tag = Inr s \<Longrightarrow> status_prefix s"
  using release_report_prefix [of org_name repo_name tag]
  by (auto simp add: get_release_prs_def status_prefix_def
      startswith_Cons startswith_Nil Let_def split: sum.splits if_splits)

lemma missing_tag_is_error:
  "nr (release_request e org_name repo_name tag) = Inr r \<Longrightarrow> status_code r = 404 \<Longrightarrow>
   \<exists>s. get_release_prs e nr ni org_name repo_name tag = Inr s \<and> startswith s ''ERROR:''"
  by (simp add: get_release_prs_def make_api_call_request release_request_def Let_def
      startswith_Cons startswith_Nil)

text \<open>
  Claim C1 says that no tool lets an exception leave it, whatever its HTTP calls do.
  In \<open>get_release_prs\<close> the release lookup (line 147) stands before the \<open>try\<close>:
  when that call raises a connection error, the exception leaves the tool.
\<close>

theorem get_release_prs_lookup_exception_escapes:
  "get_release_prs env0 net_down net_down ''hashicorp'' ''vault'' ''v1.16.0''
     = Inl (RequestException ''Connection refused'')"
  by (simp add: get_release_prs_def make_api_call_request net_down_def Let_def)

text \<open>
  Claim C3 says that each tool returns a string with a status prefix for every input
  and outcome. \<open>check_latest_release\<close> catches request exceptions only: a release
  whose \<open>body\<close> is \<open>null\<close> makes line 53 raise \<open>TypeError\<close>, which leaves the tool, and
  no string is returned.
\<close>

theorem check_latest_release_null_body_escapes:
  "check_latest_release env0 (\<lambda>rq. Inr null_body_release) ''hashicorp'' ''vault''
     = Inl (TypeError (sq @ ''NoneType'' @ sq @ '' object is not subscriptable''))"
  by code_simp

lemma categorize_shape:
  "categorize ps [(''Bug Fixes'', bs), (''Enhancements/Features'', es), (''Other Changes'', os)]
   = [(''Bug Fixes'', bs @ map pr_line (filter (\<lambda>p. bucket_of p = ''Bug Fixes'') ps)),
      (''Enhancements/Features'', es @ map pr_line (filter (\<lambda>p. bucket_of p = ''Enhancements/Features'') ps)),
      (''Other Changes'', os @ map pr_line (filter (\<lambda>p. bucket_of p = ''Other Changes'') ps))]"
  by (induction ps arbitrary: bs es os) (simp_all add: append_to_def bucket_of_def)

lemma bucket_cases:
  "bucket_of p = ''Bug Fixes'' \<or> bucket_of p = ''Enhancements/Features'' \<or> bucket_of p = ''Other Changes''"
  by (simp add: bucket_of_def)

lemma length_buckets:
  "length (filter (\<lambda>p. bucket_of p = ''Bug Fixes'') ps)
   + length (filter (\<lambda>p. bucket_of p = ''Enhancements/Features'') ps)
   + length (filter (\<lambda>p. bucket_of p = ''Other Changes'') ps) = length ps"
proof (induction ps)
  case Nil
  show ?case by simp
next
  case (Cons p ps)
  from bucket_cases [of p] Cons show ?case by auto
qed

text \<open>
  Claim C2: categorization is total and the buckets are disjoint. The summary built
  by the loop has the three keys in order, and each bucket holds the lines of exactly
  the pull requests whose key \<open>bucket_of\<close> selects; every pull request has exactly one
  such key among the three; and a pull request whose lower-cased labels match both
  keyword lists goes to the bug fixes.
\<close>

theorem categorize_total_disjoint:
  "categorize prs summary0
     = [(''Bug Fixes'', map pr_line (filter (\<lambda>p. bucket_of p = ''Bug Fixes'') prs)),
        (''Enhancements/Features'', map pr_line (filter (\<lambda>p. bucket_of p = ''Enhancements/Features'') prs)),
        (''Other Changes'', map pr_line (filter (\<lambda>p. bucket_of p = ''Other Changes'') prs))]
   \<and> (\<exists>!k. k \<in> set (map fst summary0) \<and> bucket_of q = k)
   \<and> (any_keyword BUG_KEYWORDS q \<and> any_keyword ENHANCEMENT_KEYWORDS q \<longrightarrow> bucket_of q = ''Bug Fixes'')"
proof (intro conjI)
  show "categorize prs summary0
     = [(''Bug Fixes'', map pr_line (filter (\<lambda>p. bucket_of p = ''Bug Fixes'') prs)),
        (''Enhancements/Features'', map pr_line (filter (\<lambda>p. bucket_of p = ''Enhancements/Features'') prs)),
        (''Other Changes'', map pr_line (filter (\<lambda>p. bucket_of p = ''Other Changes'') prs))]"
    unfolding summary0_def by (simp add: categorize_shape)
  show "\<exists>!k. k \<in> set (map fst summary0) \<and> bucket_of q = k"
    using bucket_cases [of q] by (auto simp add: summary0_def)
  show "any_keyword BUG_KEYWORDS q \<and> any_keyword ENHANCEMENT_KEYWORDS q \<longrightarrow> bucket_of q = ''Bug Fixes''"
    by (simp add: bucket_of_def is_bug_fix_def)
qed

text \<open>
  Claim C2 on a pull request labelled both \<open>Feature\<close> and \<open>BUG\<close>, followed by one
  labelled \<open>bugfix\<close>.
\<close>

theorem categorize_total_disjoint_witness:
  "any_keyword BUG_KEYWORDS both_labels_pr \<and> any_keyword ENHANCEMENT_KEYWORDS both_labels_pr
   \<and> bucket_of both_labels_pr = ''Bug Fixes''
   \<and> categorize [both_labels_pr, bugfix_label_pr] summary0
      = [(''Bug Fixes'', [''#9: Add retry'']), (''Enhancements/Features'', []), (''Other Changes'', [''#11: Update docs''])]"
proof -
  have a: "any_keyword BUG_KEYWORDS both_labels_pr \<and> any_keyword ENHANCEMENT_KEYWORDS both_labels_pr"
    by code_simp
  have b: "categorize [both_labels_pr, bugfix_label_pr] summary0
      = [(''Bug Fixes'', [''#9: Add retry'']), (''Enhancements/Features'', []), (''Other Changes'', [''#11: Update docs''])]"
    by code_simp
  from categorize_total_disjoint [of "[both_labels_pr, bugfix_label_pr]" both_labels_pr] a b show ?thesis by simp
qed

lemma any_keyword_iff:
  "any_keyword kws p \<longleftrightarrow> (\<exists>l \<in> set (labels p). lower l \<in> set kws)"
  by (auto simp add: any_keyword_def list_ex_iff Let_def)

lemma lower_char_table:
  "\<forall>a. lower_char a
         = (case map_of (zip ''ABCDEFGHIJKLMNOPQRSTUVWXYZ'' ''abcdefghijklmnopqrstuvwxyz'') a of
              Some b \<Rightarrow> b
            | None \<Rightarrow> a)"
  by code_simp

lemma lower_char_same_letter:
  assumes "b \<notin> set ''ABCDEFGHIJKLMNOPQRSTUVWXYZ''"
  shows "lower_char a = b \<longleftrightarrow> same_letter a b"
proof -
  let ?t = "zip ''ABCDEFGHIJKLMNOPQRSTUVWXYZ'' ''abcdefghijklmnopqrstuvwxyz''"
  have d: "distinct (map fst ?t)" by simp
  have k: "map_of ?t a = None \<longleftrightarrow> a \<notin> set ''ABCDEFGHIJKLMNOPQRSTUVWXYZ''"
    by (simp add: map_of_eq_None_iff)
  have m: "map_of ?t a = Some b \<longleftrightarrow> (a, b) \<in> set ?t" for b
    using d by (rule map_of_eq_Some_iff)
  have u: "(a, c) \<in> set ?t \<Longrightarrow> a \<in> set ''ABCDEFGHIJKLMNOPQRSTUVWXYZ''" for c
    by (rule set_zip_leftD)
  show ?thesis
  proof (cases "map_of ?t a")
    case None
    with k m [of b] lower_char_table show ?thesis
      by (auto simp add: same_letter_def)
  next
    case (Some c)
    with m [of c] have ac: "(a, c) \<in> set ?t" by simp
    from u [OF ac] assms have "a \<noteq> b" by auto
    moreover from Some lower_char_table have "lower_char a = c" by simp
    moreover have "(a, b) \<in> set ?t \<longleftrightarrow> c = b"
      using m [of b] Some by auto
    ultimately show ?thesis by (auto simp add: same_letter_def)
  qed
qed

lemma lower_equal_ignoring_case:
  assumes "set kw \<inter> set ''ABCDEFGHIJKLMNOPQRSTUVWXYZ'' = {}"
  shows "lower s = kw \<longleftrightarrow> equal_ignoring_case s kw"
proof -
  have "lower s = kw \<longleftrightarrow> list_all2 (\<lambda>a b. lower_char a = b) s kw"
    by (simp add: lower_def list_all2_conv_all_nth list_eq_iff_nth_eq)
  also have "\<dots> \<longleftrightarrow> list_all2 same_letter s kw"
  proof (rule list.rel_cong)
    fix a b assume "b \<in> set kw"
    with assms have "b \<notin> set ''ABCDEFGHIJKLMNOPQRSTUVWXYZ''" by blast
    then show "(lower_char a = b) = same_letter a b" by (rule lower_char_same_letter)
  qed simp_all
  finally show ?thesis by (simp add: equal_ignoring_case_def)
qed

lemma any_keyword_spec:
  assumes "\<forall>kw \<in> set kws. set kw \<inter> set ''ABCDEFGHIJKLMNOPQRSTUVWXYZ'' = {}"
  shows "any_keyword kws p \<longleftrightarrow> spec_label_match kws p"
proof -
  have "any_keyword kws p \<longleftrightarrow> (\<exists>l \<in> set (labels p). \<exists>kw \<in> set kws. lower l = kw)"
    by (auto simp add: any_keyword_iff)
  also have "\<dots> \<longleftrightarrow> (\<exists>l \<in> set (labels p). \<exists>kw \<in> set kws. equal_ignoring_case l kw)"
    using assms by (auto simp add: lower_equal_ignoring_case)
  finally show ?thesis by (simp add: spec_label_match_def list_ex_iff)
qed

lemma startswith_spec:
  assumes "set kw \<inter> set ''ABCDEFGHIJKLMNOPQRSTUVWXYZ'' = {}"
  shows "startswith (lower (title p)) kw \<longleftrightarrow> spec_title_starts kw p"
proof -
  have "take (length kw) (lower (title p)) = lower (take (length kw) (title p))"
    by (simp add: lower_def take_map)
  then show ?thesis
    by (simp add: startswith_def spec_title_starts_def lower_equal_ignoring_case [OF assms])
qed

lemma is_bug_fix_spec: "is_bug_fix p \<longleftrightarrow> spec_rule1 p"
proof -
  have "any_keyword BUG_KEYWORDS p \<longleftrightarrow> spec_label_match [''bug'', ''fix'', ''defect'', ''hotfix''] p"
    unfolding BUG_KEYWORDS_def by (rule any_keyword_spec) simp
  moreover have "startswith (lower (title p)) ''fix'' \<longleftrightarrow> spec_title_starts ''fix'' p"
    by (rule startswith_spec) simp
  ultimately show ?thesis by (simp add: is_bug_fix_def spec_rule1_def)
qed

lemma is_enhancement_spec: "is_enhancement p \<longleftrightarrow> spec_rule2 p"
proof -
  have "any_keyword ENHANCEMENT_KEYWORDS p
      \<longleftrightarrow> spec_label_match [''feature'', ''enhancement'', ''new'', ''feat''] p"
    unfolding ENHANCEMENT_KEYWORDS_def by (rule any_keyword_spec) simp
  moreover have "startswith (lower (title p)) ''feat'' \<longleftrightarrow> spec_title_starts ''feat'' p"
    by (rule startswith_spec) simp
  ultimately show ?thesis by (simp add: is_enhancement_def spec_rule2_def)
qed

lemma substring_labels_match_nothing:
  assumes "list_all (\<lambda>l. equal_ignoring_case l ''bugfix'' \<or> equal_ignoring_case l ''bug-report'')
             (labels p)"
  shows "\<not> spec_label_match [''bug'', ''fix'', ''defect'', ''hotfix''] p"
    and "\<not> spec_label_match [''feature'', ''enhancement'', ''new'', ''feat''] p"
proof -
  have low: "lower l = ''bugfix'' \<or> lower l = ''bug-report''" if "l \<in> set (labels p)" for l
  proof -
    from assms that
    have "equal_ignoring_case l ''bugfix'' \<or> equal_ignoring_case l ''bug-report''"
      by (simp add: list_all_iff)
    then show ?thesis by (auto simp add: lower_equal_ignoring_case [symmetric])
  qed
  have nb: "lower l \<notin> {''bug'', ''fix'', ''defect'', ''hotfix''}" if "l \<in> set (labels p)" for l
    using low [OF that] by auto
  have ne: "lower l \<notin> {''feature'', ''enhancement'', ''new'', ''feat''}"
    if "l \<in> set (labels p)" for l
    using low [OF that] by auto
  have "\<not> any_keyword BUG_KEYWORDS p"
    using nb by (auto simp add: any_keyword_iff BUG_KEYWORDS_def)
  then show "\<not> spec_label_match [''bug'', ''fix'', ''defect'', ''hotfix''] p"
    unfolding BUG_KEYWORDS_def by (subst (asm) any_keyword_spec) simp_all
  have "\<not> any_keyword ENHANCEMENT_KEYWORDS p"
    using ne by (auto simp add: any_keyword_iff ENHANCEMENT_KEYWORDS_def)
  then show "\<not> spec_label_match [''feature'', ''enhancement'', ''new'', ''feat''] p"
    unfolding ENHANCEMENT_KEYWORDS_def by (subst (asm) any_keyword_spec) simp_all
qed

text \<open>
  Claim C10: the categorizer matches a label against a keyword by equality after
  lower-casing, not by containment. For every list of pull requests the three buckets
  built by the loop hold, in order, the lines of the pull requests that satisfy rule 1,
  rule 2 without rule 1, and neither, where the rules test each label for equality
  with a keyword up to the case of its letters, and the title for its prefix in the
  same way. A pull request whose labels all read \<open>bugfix\<close> or \<open>bug-report\<close>, in any
  case, and whose title starts with neither \<open>fix\<close> nor \<open>feat\<close>, is filed under the
  other changes alone.
\<close>

theorem label_matching_is_exact:
  "categorize prs summary0
     = [(''Bug Fixes'', map pr_line (filter spec_rule1 prs)),
        (''Enhancements/Features'',
           map pr_line (filter (\<lambda>p. \<not> spec_rule1 p \<and> spec_rule2 p) prs)),
        (''Other Changes'',
           map pr_line (filter (\<lambda>p. \<not> spec_rule1 p \<and> \<not> spec_rule2 p) prs))]
   \<and> (list_all (\<lambda>l. equal_ignoring_case l ''bugfix'' \<or> equal_ignoring_case l ''bug-report'')
         (labels q)
       \<and> \<not> spec_title_starts ''fix'' q \<and> \<not> spec_title_starts ''feat'' q
       \<longrightarrow> categorize [q] summary0
             = [(''Bug Fixes'', []), (''Enhancements/Features'', []),
                (''Other Changes'', [''#'' @ str_int (number q) @ '': '' @ title q])])"
proof (intro conjI impI)
  have b: "(\<lambda>p. bucket_of p = ''Bug Fixes'') = spec_rule1"
    by (rule ext) (simp add: bucket_of_def is_bug_fix_spec)
  have e: "(\<lambda>p. bucket_of p = ''Enhancements/Features'') = (\<lambda>p. \<not> spec_rule1 p \<and> spec_rule2 p)"
    by (rule ext) (simp add: bucket_of_def is_bug_fix_spec is_enhancement_spec)
  have o: "(\<lambda>p. bucket_of p = ''Other Changes'') = (\<lambda>p. \<not> spec_rule1 p \<and> \<not> spec_rule2 p)"
    by (rule ext) (simp add: bucket_of_def is_bug_fix_spec is_enhancement_spec)
  show "categorize prs summary0
     = [(''Bug Fixes'', map pr_line (filter spec_rule1 prs)),
        (''Enhancements/Features'',
           map pr_line (filter (\<lambda>p. \<not> spec_rule1 p \<and> spec_rule2 p) prs)),
        (''Other Changes'',
           map pr_line (filter (\<lambda>p. \<not> spec_rule1 p \<and> \<not> spec_rule2 p) prs))]"
    unfolding summary0_def categorize_shape b e o by simp
next
  assume a: "list_all (\<lambda>l. equal_ignoring_case l ''bugfix'' \<or> equal_ignoring_case l ''bug-report'')
         (labels q)
       \<and> \<not> spec_title_starts ''fix'' q \<and> \<not> spec_title_starts ''feat'' q"
  then have "\<not> spec_rule1 q" and "\<not> spec_rule2 q"
    using substring_labels_match_nothing [of q] by (simp_all add: spec_rule1_def spec_rule2_def)
  then have "\<not> is_bug_fix q" and "\<not> is_enhancement q"
    by (simp_all add: is_bug_fix_spec is_enhancement_spec)
  then show "categorize [q] summary0
             = [(''Bug Fixes'', []), (''Enhancements/Features'', []),
                (''Other Changes'', [''#'' @ str_int (number q) @ '': '' @ title q])]"
    by (simp add: summary0_def append_to_def pr_line_def)
qed

text \<open>
  Claim C10 on four pull requests: one labelled \<open>BugFix\<close>, one labelled \<open>HotFix\<close>,
  one labelled \<open>bug-report\<close> and \<open>NEW\<close>, and one without labels whose title starts
  with \<open>FEAT\<close>.
\<close>

theorem label_matching_is_exact_witness:
  "categorize mixed_case_prs summary0
     = [(''Bug Fixes'', [''#12: Improve login'']),
        (''Enhancements/Features'', [''#13: Tidy up'', ''#14: FEAT: dark mode'']),
        (''Other Changes'', [''#11: Update docs''])]
   \<and> categorize [\<lparr>number = 11, title = ''Update docs'', labels = [''BugFix''],
                   url = ''https://github.com/o/r/pull/11''\<rparr>] summary0
     = [(''Bug Fixes'', []), (''Enhancements/Features'', []),
        (''Other Changes'', [''#11: Update docs''])]"
proof -
  let ?q = "\<lparr>number = 11, title = ''Update docs'', labels = [''BugFix''],
             url = ''https://github.com/o/r/pull/11''\<rparr>"
  have h: "list_all (\<lambda>l. equal_ignoring_case l ''bugfix'' \<or> equal_ignoring_case l ''bug-report'')
             (labels ?q)
           \<and> \<not> spec_title_starts ''fix'' ?q \<and> \<not> spec_title_starts ''feat'' ?q"
    by code_simp
  have f1: "map pr_line (filter spec_rule1 mixed_case_prs) = [''#12: Improve login'']"
    by code_simp
  have f2: "map pr_line (filter (\<lambda>p. \<not> spec_rule1 p \<and> spec_rule2 p) mixed_case_prs)
              = [''#13: Tidy up'', ''#14: FEAT: dark mode'']"
    by code_simp
  have f3: "map pr_line (filter (\<lambda>p. \<not> spec_rule1 p \<and> \<not> spec_rule2 p) mixed_case_prs)
              = [''#11: Update docs'']"
    by code_simp
  have l: "''#'' @ str_int (number ?q) @ '': '' @ title ?q = ''#11: Update docs''"
    by code_simp
  note th = label_matching_is_exact [of mixed_case_prs ?q]
  have one: "categorize mixed_case_prs summary0
     = [(''Bug Fixes'', [''#12: Improve login'']),
        (''Enhancements/Features'', [''#13: Tidy up'', ''#14: FEAT: dark mode'']),
        (''Other Changes'', [''#11: Update docs''])]"
    using th [THEN conjunct1] unfolding f1 f2 f3 .
  have two: "categorize [?q] summary0
     = [(''Bug Fixes'', []), (''Enhancements/Features'', []),
        (''Other Changes'', [''#11: Update docs''])]"
    using th [THEN conjunct2, THEN mp, OF h] unfolding l .
  from one two show ?thesis by (rule conjI)
qed




lemma collect_prs_filter: "collect_prs items prs = prs @ map pr_of_item (filter is_merged_pr items)"
  by (induction items arbitrary: prs) simp_all

lemma is_merged_pr_iff:
  "is_merged_pr item \<longleftrightarrow> (\<exists>m s. item_pull_request item = Some m \<and> merged_at m = Val s \<and> s \<noteq> [])"
  by (auto simp add: is_merged_pr_def split: option.splits field.splits)

lemma fetch_merged_prs_eq:
  "fetch_merged_prs e net org_name repo_name since
     = (case net (issues_request e org_name repo_name since) of
          Inl ex \<Rightarrow> Inl ex
        | Inr r \<Rightarrow>
            if status_code r \<noteq> 200 then Inr []
            else (case json r of
                    Inl ex \<Rightarrow> Inl ex
                  | Inr items \<Rightarrow> Inr (map pr_of_item (filter is_merged_pr items))))"
  by (simp add: fetch_merged_prs_def make_api_call_request Let_def collect_prs_filter
      split: sum.splits)

lemma requested_page_size_issues:
  "requested_page_size (issues_request e org_name repo_name since) = 50"
proof -
  have "str_nat per_page = ''50''" by code_simp
  moreover have "parse_digits (length ''50'') ''50'' = Some 50" by code_simp
  ultimately show ?thesis
    by (simp add: requested_page_size_def issues_request_def issues_params_def)
qed

text \<open>
  Claim C5: the fetch of the merged pull requests asks for one page of 50 items. A
  response with a status other than 200 gives the empty list. A 200 response whose
  list of items is a page of the requested size gives one entry, in order, for each
  item that carries a pull-request marker with a merge timestamp that is present and
  not empty, built from that item's number, title, label names and URL, and no entry
  for any other item; so the result has at most 50 entries.
\<close>

theorem fetch_merged_prs_result:
  assumes "net (issues_request e org_name repo_name since) = Inr r"
  shows "(''per_page'', Some ''50'') \<in> set (req_params (issues_request e org_name repo_name since))
    \<and> (status_code r \<noteq> 200 \<longrightarrow> fetch_merged_prs e net org_name repo_name since = Inr [])
    \<and> (status_code r = 200 \<and> json r = Inr items
         \<and> length items \<le> requested_page_size (issues_request e org_name repo_name since) \<longrightarrow>
         fetch_merged_prs e net org_name repo_name since
           = Inr (map (\<lambda>item. \<lparr>number = item_number item, title = item_title item,
                               labels = (case item_labels item of None \<Rightarrow> [] | Some ls \<Rightarrow> ls),
                               url = item_html_url item\<rparr>)
                    (filter (\<lambda>item. \<exists>m s. item_pull_request item = Some m
                                         \<and> merged_at m = Val s \<and> s \<noteq> []) items))
         \<and> length (filter (\<lambda>item. \<exists>m s. item_pull_request item = Some m
                                         \<and> merged_at m = Val s \<and> s \<noteq> []) items) \<le> 50)"
proof (intro conjI impI)
  have "str_nat per_page = ''50''" by code_simp
  then show "(''per_page'', Some ''50'') \<in> set (req_params (issues_request e org_name repo_name since))"
    by (simp add: issues_request_def issues_params_def)
next
  assume "status_code r \<noteq> 200"
  then show "fetch_merged_prs e net org_name repo_name since = Inr []"
    by (simp add: fetch_merged_prs_eq assms)
next
  assume a: "status_code r = 200 \<and> json r = Inr items
         \<and> length items \<le> requested_page_size (issues_request e org_name repo_name since)"
  have p: "is_merged_pr = (\<lambda>item. \<exists>m s. item_pull_request item = Some m
                                         \<and> merged_at m = Val s \<and> s \<noteq> [])"
    by (rule ext) (rule is_merged_pr_iff)
  have q: "pr_of_item = (\<lambda>item. \<lparr>number = item_number item, title = item_title item,
                               labels = (case item_labels item of None \<Rightarrow> [] | Some ls \<Rightarrow> ls),
                               url = item_html_url item\<rparr>)"
    by (rule ext) (simp add: pr_of_item_def)
  from a have "fetch_merged_prs e net org_name repo_name since
                 = Inr (map pr_of_item (filter is_merged_pr items))"
    by (simp add: fetch_merged_prs_eq assms)
  then show "fetch_merged_prs e net org_name repo_name since
           = Inr (map (\<lambda>item. \<lparr>number = item_number item, title = item_title item,
                               labels = (case item_labels item of None \<Rightarrow> [] | Some ls \<Rightarrow> ls),
                               url = item_html_url item\<rparr>)
                    (filter (\<lambda>item. \<exists>m s. item_pull_request item = Some m
                                         \<and> merged_at m = Val s \<and> s \<noteq> []) items))"
    unfolding p q .
  from a have "length items \<le> 50"
    by (simp add: requested_page_size_issues)
  moreover have "length (filter (\<lambda>item. \<exists>m s. item_pull_request item = Some m
                                         \<and> merged_at m = Val s \<and> s \<noteq> []) items) \<le> length items"
    by (rule length_filter_le)
  ultimately show "length (filter (\<lambda>item. \<exists>m s. item_pull_request item = Some m
                                         \<and> merged_at m = Val s \<and> s \<noteq> []) items) \<le> 50"
    by (rule_tac order_trans)
qed

text \<open>
  Claim C5 on a server that holds five items, three of them merged pull requests; on
  a 404 response; and on a server that holds 60 merged pull requests and answers with
  a page of the 50 requested.
\<close>

theorem fetch_merged_prs_result_witness:
  "fetch_merged_prs env0 (issues_page scenario3_items) ''hashicorp'' ''vault''
     (Some ''2024-04-10T12:00:00Z'')
     = Inr [\<lparr>number = 5, title = ''Fix null pointer'', labels = [],
              url = ''https://github.com/hashicorp/vault/pull/5''\<rparr>,
            \<lparr>number = 6, title = ''Add dark mode'', labels = [''feature''],
              url = ''https://github.com/hashicorp/vault/pull/6''\<rparr>,
            \<lparr>number = 7, title = ''Update docs'', labels = [],
              url = ''https://github.com/hashicorp/vault/pull/7''\<rparr>]
   \<and> fetch_merged_prs env0 (\<lambda>rq. Inr not_found) ''hashicorp'' ''vault''
        (Some ''2024-04-10T12:00:00Z'') = Inr []
   \<and> fetch_merged_prs env0 (issues_page (replicate 60 merged_item)) ''hashicorp'' ''vault''
        (Some ''2024-04-10T12:00:00Z'')
     = Inr (replicate 50 \<lparr>number = 5, title = ''Fix null pointer'', labels = [],
                           url = ''https://github.com/hashicorp/vault/pull/5''\<rparr>)"
proof -
  let ?rq = "issues_request env0 ''hashicorp'' ''vault'' (Some ''2024-04-10T12:00:00Z'')"
  let ?r = "\<lparr>status_code = 200, text = [], json = Inr scenario3_items\<rparr> :: issue list response"
  let ?kept = "\<lambda>item. \<exists>m s. item_pull_request item = Some m \<and> merged_at m = Val s \<and> s \<noteq> []"
  have ps: "requested_page_size ?rq = 50"
    by (rule requested_page_size_issues)
  have a: "issues_page scenario3_items ?rq = Inr ?r"
    by (simp add: issues_page_def ps) (simp add: issues_request_def scenario3_items_def)
  have b: "(\<lambda>rq. Inr not_found) ?rq = (Inr not_found :: exn + issue list response)"
    by simp
  have nf: "status_code (not_found :: issue list response) \<noteq> 200"
    by (simp add: not_found_def)
  have l: "length scenario3_items \<le> requested_page_size ?rq"
    by (simp add: ps scenario3_items_def)
  have k: "filter ?kept scenario3_items = take 3 scenario3_items"
    by (simp add: scenario3_items_def merged_item_def)
  have m: "map (\<lambda>item. \<lparr>number = item_number item, title = item_title item,
                         labels = (case item_labels item of None \<Rightarrow> [] | Some ls \<Rightarrow> ls),
                         url = item_html_url item\<rparr>) (take 3 scenario3_items)
           = [\<lparr>number = 5, title = ''Fix null pointer'', labels = [],
                url = ''https://github.com/hashicorp/vault/pull/5''\<rparr>,
              \<lparr>number = 6, title = ''Add dark mode'', labels = [''feature''],
                url = ''https://github.com/hashicorp/vault/pull/6''\<rparr>,
              \<lparr>number = 7, title = ''Update docs'', labels = [],
                url = ''https://github.com/hashicorp/vault/pull/7''\<rparr>]"
    by (simp add: scenario3_items_def merged_item_def)
  have h: "status_code ?r = 200 \<and> json ?r = Inr scenario3_items
             \<and> length scenario3_items \<le> requested_page_size ?rq"
    using l by simp
  note th = fetch_merged_prs_result [where net = "issues_page scenario3_items" and r = ?r
      and items = scenario3_items, OF a]
  from th [THEN conjunct2, THEN conjunct2, THEN mp, OF h]
  have "fetch_merged_prs env0 (issues_page scenario3_items) ''hashicorp'' ''vault''
          (Some ''2024-04-10T12:00:00Z'')
        = Inr (map (\<lambda>item. \<lparr>number = item_number item, title = item_title item,
                            labels = (case item_labels item of None \<Rightarrow> [] | Some ls \<Rightarrow> ls),
                            url = item_html_url item\<rparr>)
                 (filter ?kept scenario3_items))"
    by (rule conjunct1)
  then have one: "fetch_merged_prs env0 (issues_page scenario3_items) ''hashicorp'' ''vault''
     (Some ''2024-04-10T12:00:00Z'')
     = Inr [\<lparr>number = 5, title = ''Fix null pointer'', labels = [],
              url = ''https://github.com/hashicorp/vault/pull/5''\<rparr>,
            \<lparr>number = 6, title = ''Add dark mode'', labels = [''feature''],
              url = ''https://github.com/hashicorp/vault/pull/6''\<rparr>,
            \<lparr>number = 7, title = ''Update docs'', labels = [],
              url = ''https://github.com/hashicorp/vault/pull/7''\<rparr>]"
    unfolding k m .
  from fetch_merged_prs_result [where net = "\<lambda>rq. Inr not_found" and r = not_found, OF b]
  have two: "fetch_merged_prs env0 (\<lambda>rq. Inr not_found) ''hashicorp'' ''vault''
        (Some ''2024-04-10T12:00:00Z'') = Inr []"
    using nf by simp
  have three: "fetch_merged_prs env0 (issues_page (replicate 60 merged_item)) ''hashicorp'' ''vault''
        (Some ''2024-04-10T12:00:00Z'')
     = Inr (replicate 50 \<lparr>number = 5, title = ''Fix null pointer'', labels = [],
                           url = ''https://github.com/hashicorp/vault/pull/5''\<rparr>)"
    by code_simp
  from one two three show ?thesis by simp
qed

lemma split_no_sep: "c \<notin> set l \<Longrightarrow> split c l = [l]"
  by (induction l) auto

lemma split_append_sep: "c \<notin> set l \<Longrightarrow> split c (l @ c # rest) = l # split c rest"
  by (induction l) auto

lemma split_join:
  "ls \<noteq> [] \<Longrightarrow> \<forall>l \<in> set ls. c \<notin> set l \<Longrightarrow> split c (join [c] ls) = ls"
proof (induction "[c]" ls rule: join.induct)
  case 1
  then show ?case by simp
next
  case (2 x)
  then show ?case by (simp add: split_no_sep)
next
  case (3 x y ys)
  then show ?case by (simp add: split_append_sep)
qed

lemma join_butlast_last:
  "xs \<noteq> [] \<Longrightarrow> join sep xs = concat (map (\<lambda>l. l @ sep) (butlast xs)) @ last xs"
  by (induction sep xs rule: join.induct) simp_all

lemma join_then_sep:
  "xs \<noteq> [] \<Longrightarrow> join sep xs @ sep = concat (map (\<lambda>l. l @ sep) xs)"
proof -
  assume ne: "xs \<noteq> []"
  then have "concat (map (\<lambda>l. l @ sep) xs)
               = concat (map (\<lambda>l. l @ sep) (butlast xs @ [last xs]))"
    by simp
  also have "\<dots> = concat (map (\<lambda>l. l @ sep) (butlast xs)) @ last xs @ sep"
    by (simp only: map_append concat_append) simp
  finally show ?thesis using ne by (simp add: join_butlast_last)
qed

text \<open>
  Claim C8: when the fetched content consists of at least 10 lines, written one after
  the other with a line break between them, the tool returns the first 10 lines, each
  followed by a line break, between the opening fence and the closing fence of the
  snippet.
\<close>

theorem dependency_file_first_ten_lines:
  assumes "net (contents_request e org_name repo_name file_path) = Inr r"
    and "status_code r = 200"
    and "text r = concat (map (\<lambda>l. l @ ''\<newline>'') (butlast ls)) @ last ls"
    and "\<forall>l \<in> set ls. CHR ''\<newline>'' \<notin> set l"
    and "10 \<le> length ls"
  shows "get_dependency_file e net org_name repo_name file_path
           = Inr (''SUCCESS: Content of `'' @ file_path @ ''`:\<newline>```\<newline>''
                   @ concat (map (\<lambda>l. l @ ''\<newline>'') (take 10 ls)) @ ''```'')
         \<and> length (take 10 ls) = 10"
proof -
  from assms(5) have ne: "ls \<noteq> []" by auto
  from assms(5) have ne10: "take 10 ls \<noteq> []" by auto
  have "text r = join ''\<newline>'' ls"
    using assms(3) ne by (simp add: join_butlast_last)
  then have sp: "split CHR ''\<newline>'' (text r) = ls"
    using split_join [OF ne assms(4)] by simp
  have out: "join ''\<newline>'' (take 10 ls) @ ''\<newline>```''
               = concat (map (\<lambda>l. l @ ''\<newline>'') (take 10 ls)) @ ''```''"
    using join_then_sep [OF ne10, of "''\<newline>''"] by simp
  have "get_dependency_file e net org_name repo_name file_path
           = Inr (''SUCCESS: Content of `'' @ file_path @ ''`:\<newline>```\<newline>''
                   @ join ''\<newline>'' (take 10 ls) @ ''\<newline>```'')"
    using assms(1,2) sp
    by (simp add: get_dependency_file_def get_dependency_file_try_def make_api_call_request
        Let_def del: join.simps)
  then show ?thesis using assms(5) by (simp only: out) simp
qed

text \<open>
  Claim C8 on a \<open>package.json\<close> of 20 lines.
\<close>

theorem dependency_file_first_ten_lines_witness:
  \<open>get_dependency_file env0 package_json_net ''grafana'' ''grafana'' ''package.json''
     = Inr ''SUCCESS: Content of `package.json`:\<newline>```\<newline>{\<newline>  "name": "grafana",\<newline>  "version": "10.4.0",\<newline>  "private": true,\<newline>  "license": "AGPL-3.0",\<newline>  "scripts": {\<newline>    "build": "webpack",\<newline>    "test": "jest",\<newline>    "lint": "eslint ."\<newline>  },\<newline>```''\<close>
proof -
  have n: "package_json_net (contents_request env0 ''grafana'' ''grafana'' ''package.json'')
             = Inr \<lparr>status_code = 200, text = package_json_text, json = Inr ()\<rparr>"
    by (simp add: package_json_net_def contents_request_def)
  have s: "status_code \<lparr>status_code = 200, text = package_json_text, json = Inr ()\<rparr> = 200"
    by simp
  have t: "text \<lparr>status_code = 200, text = package_json_text, json = Inr ()\<rparr>
             = concat (map (\<lambda>l. l @ ''\<newline>'') (butlast package_json_lines))
               @ last package_json_lines"
    by code_simp
  have nl: "\<forall>l \<in> set package_json_lines. CHR ''\<newline>'' \<notin> set l"
    by (simp add: package_json_lines_def)
  have len: "10 \<le> length package_json_lines"
    by (simp add: package_json_lines_def)
  have lit: \<open>''SUCCESS: Content of `'' @ ''package.json'' @ ''`:\<newline>```\<newline>''
                   @ concat (map (\<lambda>l. l @ ''\<newline>'') (take 10 package_json_lines)) @ ''```''
     = ''SUCCESS: Content of `package.json`:\<newline>```\<newline>{\<newline>  "name": "grafana",\<newline>  "version": "10.4.0",\<newline>  "private": true,\<newline>  "license": "AGPL-3.0",\<newline>  "scripts": {\<newline>    "build": "webpack",\<newline>    "test": "jest",\<newline>    "lint": "eslint ."\<newline>  },\<newline>```''\<close>
    by code_simp
  note th = dependency_file_first_ten_lines [where net = package_json_net and e = env0
      and org_name = "''grafana''" and repo_name = "''grafana''"
      and file_path = "''package.json''" and ls = package_json_lines
      and r = "\<lparr>status_code = 200, text = package_json_text, json = Inr ()\<rparr>",
      OF n s t nl len]
  from th [THEN conjunct1] show ?thesis by (simp only: lit)
qed

lemma get_release_prs_eq:
  "get_release_prs e nr ni org_name repo_name tag
     = (case nr (release_request e org_name repo_name tag) of
          Inl ex \<Rightarrow> Inl ex
        | Inr r \<Rightarrow>
            if status_code r \<noteq> 200
            then Inr (''ERROR: Could not find release tag `'' @ tag
                       @ ''` for categorization. Status: '' @ str_int (status_code r) @ ''.'')
            else (case json r of
                    Inl ex \<Rightarrow> Inl ex
                  | Inr d \<Rightarrow>
                      (case fetch_merged_prs e ni org_name repo_name (published_date_str_of e d) of
                         Inl ex \<Rightarrow> Inr (''TOOL_ERROR: Failed to fetch PRs for release. Error: ''
                                          @ exn_str ex)
                       | Inr all_prs \<Rightarrow> Inr (release_report org_name repo_name tag all_prs))))"
  by (simp add: get_release_prs_def make_api_call_request Let_def split: sum.splits)

text \<open>
  Claim C9: when the release lookup succeeds and the list of candidate pull requests
  is empty, the tool returns the single sentence saying that no recently merged pull
  requests were found.
\<close>

theorem empty_candidates_report:
  assumes "nr (release_request e org_name repo_name tag) = Inr r"
    and "status_code r = 200"
    and "json r = Inr d"
    and "fetch_merged_prs e ni org_name repo_name (published_date_str_of e d) = Inr []"
  shows "get_release_prs e nr ni org_name repo_name tag
           = Inr (''SUCCESS: Found no recently merged Pull Requests for release `'' @ tag @ ''`.'')"
  using assms by (simp add: get_release_prs_eq release_report_def)

text \<open>
  Claim C9 on a release whose issues page is empty.
\<close>

theorem empty_candidates_report_witness:
  "get_release_prs env0 vault_net (issues_page []) ''hashicorp'' ''vault'' ''v1.16.0''
     = Inr ''SUCCESS: Found no recently merged Pull Requests for release `v1.16.0`.''"
proof -
  have a: "vault_net (release_request env0 ''hashicorp'' ''vault'' ''v1.16.0'') = Inr vault_release"
    by (simp add: vault_net_def release_request_def)
  have b: "status_code vault_release = 200"
    by (simp add: vault_release_def)
  have c: "json vault_release = Inr \<lparr>tag_name = Val ''v1.16.0'', published_at = Val ''2024-04-10T12:00:00Z'',
                  html_url = Val ''https://...'', body = Val ''Improvements...''\<rparr>"
    by (simp add: vault_release_def)
  have d: "fetch_merged_prs env0 (issues_page []) ''hashicorp'' ''vault''
             (published_date_str_of env0 \<lparr>tag_name = Val ''v1.16.0'', published_at = Val ''2024-04-10T12:00:00Z'',
                  html_url = Val ''https://...'', body = Val ''Improvements...''\<rparr>) = Inr []"
    by code_simp
  from empty_candidates_report [where nr = vault_net and e = env0 and org_name = "''hashicorp''"
      and repo_name = "''vault''" and tag = "''v1.16.0''" and r = vault_release
      and ni = "issues_page []", OF a b c d]
  show ?thesis by simp
qed

lemma sum_buckets:
  "sum_list (map (\<lambda>(category, items). length items) (categorize ps summary0)) = length ps"
  using length_buckets [of ps] by (simp add: summary0_def categorize_shape)

text \<open>
  Claim C7: for a non-empty list of eligible pull requests, the number after
  \<open>Total Relevant PRs Found\<close> in the report is the sum of the sizes of the three
  buckets.
\<close>

theorem total_found_is_bucket_sum:
  assumes "nr (release_request e org_name repo_name tag) = Inr r"
    and "status_code r = 200"
    and "json r = Inr d"
    and "fetch_merged_prs e ni org_name repo_name (published_date_str_of e d) = Inr all_prs"
    and "all_prs \<noteq> []"
  shows "map fst (categorize all_prs summary0)
           = [''Bug Fixes'', ''Enhancements/Features'', ''Other Changes'']
    \<and> get_release_prs e nr ni org_name repo_name tag
        = Inr (join ''\<newline>''
                 ([''SUCCESS: Analysis for '' @ org_name @ ''/'' @ repo_name @ '' release `''
                     @ tag @ ''`:'',
                   ''Total Relevant PRs Found: ''
                     @ str_nat (sum_list (map (\<lambda>(category, items). length items)
                                            (categorize all_prs summary0)))]
                  @ sections (categorize all_prs summary0)))"
proof
  show "map fst (categorize all_prs summary0)
           = [''Bug Fixes'', ''Enhancements/Features'', ''Other Changes'']"
    by (simp add: summary0_def categorize_shape)
  show "get_release_prs e nr ni org_name repo_name tag
        = Inr (join ''\<newline>''
                 ([''SUCCESS: Analysis for '' @ org_name @ ''/'' @ repo_name @ '' release `''
                     @ tag @ ''`:'',
                   ''Total Relevant PRs Found: ''
                     @ str_nat (sum_list (map (\<lambda>(category, items). length items)
                                            (categorize all_prs summary0)))]
                  @ sections (categorize all_prs summary0)))"
    using assms unfolding sum_buckets
    by (simp add: get_release_prs_eq release_report_def Let_def del: join.simps)
qed

text \<open>
  Claim C7 on the three pull requests of scenario 3.
\<close>

theorem total_found_is_bucket_sum_witness:
  "get_release_prs env0 vault_net (issues_page scenario3_items) ''hashicorp'' ''vault'' ''v1.16.0''
     = Inr ''SUCCESS: Analysis for hashicorp/vault release `v1.16.0`:\<newline>Total Relevant PRs Found: 3\<newline>\<newline>--- Bug Fixes (1) ---\<newline>#5: Fix null pointer\<newline>\<newline>--- Enhancements/Features (1) ---\<newline>#6: Add dark mode\<newline>\<newline>--- Other Changes (1) ---\<newline>#7: Update docs''
   \<and> categorize scenario3_prs summary0
       = [(''Bug Fixes'', [''#5: Fix null pointer'']),
          (''Enhancements/Features'', [''#6: Add dark mode'']),
          (''Other Changes'', [''#7: Update docs''])]"
proof -
  have a: "vault_net (release_request env0 ''hashicorp'' ''vault'' ''v1.16.0'') = Inr vault_release"
    by (simp add: vault_net_def release_request_def)
  have b: "status_code vault_release = 200"
    by (simp add: vault_release_def)
  have c: "json vault_release = Inr \<lparr>tag_name = Val ''v1.16.0'', published_at = Val ''2024-04-10T12:00:00Z'',
                  html_url = Val ''https://...'', body = Val ''Improvements...''\<rparr>"
    by (simp add: vault_release_def)
  have d: "fetch_merged_prs env0 (issues_page scenario3_items) ''hashicorp'' ''vault''
             (published_date_str_of env0 \<lparr>tag_name = Val ''v1.16.0'', published_at = Val ''2024-04-10T12:00:00Z'',
                  html_url = Val ''https://...'', body = Val ''Improvements...''\<rparr>) = Inr scenario3_prs"
    by code_simp
  have ne: "scenario3_prs \<noteq> []"
    by (simp add: scenario3_prs_def)
  have cat: "categorize scenario3_prs summary0
       = [(''Bug Fixes'', [''#5: Fix null pointer'']),
          (''Enhancements/Features'', [''#6: Add dark mode'']),
          (''Other Changes'', [''#7: Update docs''])]"
    by code_simp
  have rep: "join ''\<newline>''
                 ([''SUCCESS: Analysis for '' @ ''hashicorp'' @ ''/'' @ ''vault'' @ '' release `''
                     @ ''v1.16.0'' @ ''`:'',
                   ''Total Relevant PRs Found: ''
                     @ str_nat (sum_list (map (\<lambda>(category, items). length items)
                                            (categorize scenario3_prs summary0)))]
                  @ sections (categorize scenario3_prs summary0))
     = ''SUCCESS: Analysis for hashicorp/vault release `v1.16.0`:\<newline>Total Relevant PRs Found: 3\<newline>\<newline>--- Bug Fixes (1) ---\<newline>#5: Fix null pointer\<newline>\<newline>--- Enhancements/Features (1) ---\<newline>#6: Add dark mode\<newline>\<newline>--- Other Changes (1) ---\<newline>#7: Update docs''"
    by code_simp
  from total_found_is_bucket_sum [where nr = vault_net and e = env0 and org_name = "''hashicorp''"
      and repo_name = "''vault''" and tag = "''v1.16.0''" and r = vault_release
      and ni = "issues_page scenario3_items" and all_prs = scenario3_prs, OF a b c d ne]
  have "get_release_prs env0 vault_net (issues_page scenario3_items) ''hashicorp'' ''vault'' ''v1.16.0''
     = Inr (join ''\<newline>''
                 ([''SUCCESS: Analysis for '' @ ''hashicorp'' @ ''/'' @ ''vault'' @ '' release `''
                     @ ''v1.16.0'' @ ''`:'',
                   ''Total Relevant PRs Found: ''
                     @ str_nat (sum_list (map (\<lambda>(category, items). length items)
                                            (categorize scenario3_prs summary0)))]
                  @ sections (categorize scenario3_prs summary0)))"
    by (rule conjunct2)
  then show ?thesis unfolding rep using cat by simp
qed

lemma tool_result_Inr_iff:
  "tool_result w fc = Inr p \<longleftrightarrow>
     (case AVAILABLE_TOOLS w (name fc) of
        Some tool \<Rightarrow> \<exists>out. tool (args fc) = Inr out
                          \<and> p = FunctionResponse (name fc) [(''output'', out)]
      | None \<Rightarrow> p = FunctionResponse (name fc)
                       [(''error'', ''Function '' @ name fc @ '' not found.'')])"
  by (auto simp add: tool_result_def Let_def split: option.splits sum.splits)

lemma run_round_Inr_iff:
  "run_round w calls acc = Inr results \<longleftrightarrow>
     (\<exists>new. results = acc @ new \<and> map (tool_result w) calls = map Inr new)"
proof (induction calls arbitrary: acc)
  case Nil
  show ?case by auto
next
  case (Cons c cs)
  show ?case
  proof (cases "tool_result w c")
    case (Inl ex)
    then show ?thesis by (auto simp add: Cons_eq_map_conv)
  next
    case (Inr p)
    then show ?thesis by (auto simp add: Cons Cons_eq_map_conv)
  qed
qed

lemma run_round_returns:
  "\<And>acc. \<forall>fc \<in> set calls. \<exists>p. tool_result w fc = Inr p \<Longrightarrow> \<exists>results. run_round w calls acc = Inr results"
proof (induction calls)
  case Nil
  show ?case by simp
next
  case (Cons c cs)
  from Cons.prems obtain p where p: "tool_result w c = Inr p" by auto
  from Cons.prems have "\<forall>fc \<in> set cs. \<exists>p. tool_result w fc = Inr p" by simp
  from Cons.IH [OF this, of "acc @ [p]"] p show ?case by simp
qed

lemma dom_AVAILABLE_TOOLS:
  "dom (AVAILABLE_TOOLS w) = {''check_latest_release'', ''get_dependency_file'', ''get_release_prs''}"
  by (auto simp add: AVAILABLE_TOOLS_def)

text \<open>
  Claim C6, amended: in a round in which every call of a registered tool returns, the
  round has exactly one result for each request, in order: the output under the key
  \<open>output\<close> for a registered name, the message under the key \<open>error\<close> for any other
  name; and the loop sends these results to the model as one batch before it reads
  the next response.
\<close>

theorem round_results_batched:
  assumes calls: "function_calls response \<noteq> []"
    and returns: "\<forall>fc \<in> set (function_calls response). \<forall>tool.
                    AVAILABLE_TOOLS w (name fc) = Some tool \<longrightarrow> (\<exists>out. tool (args fc) = Inr out)"
  shows "\<exists>tool_results.
           run_round w (function_calls response) [] = Inr tool_results
         \<and> length tool_results = length (function_calls response)
         \<and> (\<forall>i < length (function_calls response).
               let fc = function_calls response ! i
               in (case AVAILABLE_TOOLS w (name fc) of
                     Some tool \<Rightarrow> \<exists>out. tool (args fc) = Inr out
                        \<and> tool_results ! i = FunctionResponse (name fc) [(''output'', out)]
                   | None \<Rightarrow> tool_results ! i = FunctionResponse (name fc)
                        [(''error'', ''Function '' @ name fc @ '' not found.'')]))
         \<and> handle_tool_call (Suc k) w chat st response
             = (case chat (sent st @ [tool_results]) of
                  Inl ex \<Rightarrow> Some (Inl ex)
                | Inr response' \<Rightarrow>
                    handle_tool_call k w chat
                      (st\<lparr>gemini_calls := gemini_calls st + 1,
                          sent := sent st @ [tool_results]\<rparr>) response')"
proof -
  have "\<forall>fc \<in> set (function_calls response). \<exists>p. tool_result w fc = Inr p"
  proof
    fix fc assume "fc \<in> set (function_calls response)"
    with returns show "\<exists>p. tool_result w fc = Inr p"
      by (cases "AVAILABLE_TOOLS w (name fc)") (auto simp add: tool_result_Inr_iff)
  qed
  then obtain tool_results where rr: "run_round w (function_calls response) [] = Inr tool_results"
    using run_round_returns by blast
  then have m: "map (tool_result w) (function_calls response) = map Inr tool_results"
    by (simp add: run_round_Inr_iff)
  then have len: "length tool_results = length (function_calls response)"
    by (metis length_map)
  have each: "tool_result w (function_calls response ! i) = Inr (tool_results ! i)"
    if "i < length (function_calls response)" for i
  proof -
    have "map (tool_result w) (function_calls response) ! i = map Inr tool_results ! i"
      by (simp only: m)
    with that len show ?thesis by simp
  qed
  have step: "handle_tool_call (Suc k) w chat st response
             = (case chat (sent st @ [tool_results]) of
                  Inl ex \<Rightarrow> Some (Inl ex)
                | Inr response' \<Rightarrow>
                    handle_tool_call k w chat
                      (st\<lparr>gemini_calls := gemini_calls st + 1,
                          sent := sent st @ [tool_results]\<rparr>) response')"
    using calls rr by (simp add: handle_tool_call.simps [of "Suc k"] Let_def split: sum.split)
  show ?thesis
  proof (intro exI conjI allI impI)
    show "run_round w (function_calls response) [] = Inr tool_results" by (rule rr)
    show "length tool_results = length (function_calls response)" by (rule len)
    show "handle_tool_call (Suc k) w chat st response
             = (case chat (sent st @ [tool_results]) of
                  Inl ex \<Rightarrow> Some (Inl ex)
                | Inr response' \<Rightarrow>
                    handle_tool_call k w chat
                      (st\<lparr>gemini_calls := gemini_calls st + 1,
                          sent := sent st @ [tool_results]\<rparr>) response')" by (rule step)
  next
    fix i assume "i < length (function_calls response)"
    from each [OF this]
    show "let fc = function_calls response ! i
               in (case AVAILABLE_TOOLS w (name fc) of
                     Some tool \<Rightarrow> \<exists>out. tool (args fc) = Inr out
                        \<and> tool_results ! i = FunctionResponse (name fc) [(''output'', out)]
                   | None \<Rightarrow> tool_results ! i = FunctionResponse (name fc)
                        [(''error'', ''Function '' @ name fc @ '' not found.'')])"
      by (simp add: tool_result_Inr_iff Let_def)
  qed
qed

text \<open>
  Claim C6, as stated, gives every request of a registered tool a result. The loop
  has no handler: when the call raises, here because a required argument is missing,
  the exception ends the loop and nothing is sent.
\<close>

theorem round_halts_counterexample:
  "AVAILABLE_TOOLS world0 ''check_latest_release'' \<noteq> None
   \<and> run_round world0 (function_calls bad_round) []
       = Inl (TypeError (''check_latest_release() missing 1 required positional argument: ''
                          @ sq @ ''repo_name'' @ sq))
   \<and> handle_tool_call (Suc 0) world0 chat0 \<lparr>gemini_calls = 1, sent = []\<rparr> bad_round
       = Some (Inl (TypeError (''check_latest_release() missing 1 required positional argument: ''
                          @ sq @ ''repo_name'' @ sq)))"
proof (intro conjI)
  show "AVAILABLE_TOOLS world0 ''check_latest_release'' \<noteq> None"
    by (simp add: AVAILABLE_TOOLS_def)
  show "run_round world0 (function_calls bad_round) []
       = Inl (TypeError (''check_latest_release() missing 1 required positional argument: ''
                          @ sq @ ''repo_name'' @ sq))"
    by code_simp
  show "handle_tool_call (Suc 0) world0 chat0 \<lparr>gemini_calls = 1, sent = []\<rparr> bad_round
       = Some (Inl (TypeError (''check_latest_release() missing 1 required positional argument: ''
                          @ sq @ ''repo_name'' @ sq)))"
    by code_simp
qed

text \<open>
  Claim C6 on a round with one call of \<open>check_latest_release\<close> and one call of an
  unregistered name.
\<close>

theorem round_results_batched_witness:
  \<open>handle_tool_call (Suc 0) world0 chat0 \<lparr>gemini_calls = 1, sent = []\<rparr> round0
      = Some (Inr (\<lparr>function_calls = [], response_text = ''Vault v1.16.0 is the latest release.''\<rparr>,
                   \<lparr>gemini_calls = 3,
                    sent = [[FunctionResponse ''check_latest_release''
                               [(''output'', ''SUCCESS: **hashicorp/vault** Latest Release: **v1.16.0** | Published: 2024-04-10. Release URL: https://.... Notes Snippet: "Improvements......"'')],
                             FunctionResponse ''delete_repo''
                               [(''error'', ''Function delete_repo not found.'')]]]\<rparr>))\<close>
proof -
  let ?batch = \<open>[FunctionResponse ''check_latest_release''
                               [(''output'', ''SUCCESS: **hashicorp/vault** Latest Release: **v1.16.0** | Published: 2024-04-10. Release URL: https://.... Notes Snippet: "Improvements......"'')],
                             FunctionResponse ''delete_repo''
                               [(''error'', ''Function delete_repo not found.'')]]\<close>
  have ne: "function_calls round0 \<noteq> []"
    by (simp add: round0_def)
  have out: \<open>call_check_latest_release world0 [(''org_name'', ''hashicorp''), (''repo_name'', ''vault'')]
     = Inr ''SUCCESS: **hashicorp/vault** Latest Release: **v1.16.0** | Published: 2024-04-10. Release URL: https://.... Notes Snippet: "Improvements......"''\<close>
    by code_simp
  have hyp: "\<forall>fc \<in> set (function_calls round0). \<forall>tool.
       AVAILABLE_TOOLS world0 (name fc) = Some tool \<longrightarrow> (\<exists>out. tool (args fc) = Inr out)"
    using out by (auto simp add: round0_def AVAILABLE_TOOLS_def)
  have rr: "run_round world0 (function_calls round0) [] = Inr ?batch"
    by code_simp
  from round_results_batched [OF ne hyp, of 0 chat0 "\<lparr>gemini_calls = 1, sent = []\<rparr>"]
  obtain tr where tr: "run_round world0 (function_calls round0) [] = Inr tr"
    and step: "handle_tool_call (Suc 0) world0 chat0 \<lparr>gemini_calls = 1, sent = []\<rparr> round0
      = (case chat0 (sent \<lparr>gemini_calls = 1, sent = []\<rparr> @ [tr]) of
           Inl ex \<Rightarrow> Some (Inl ex)
         | Inr response' \<Rightarrow>
             handle_tool_call 0 world0 chat0
               (\<lparr>gemini_calls = 1, sent = []\<rparr>
                  \<lparr>gemini_calls := gemini_calls \<lparr>gemini_calls = 1, sent = []\<rparr> + 1,
                   sent := sent \<lparr>gemini_calls = 1, sent = []\<rparr> @ [tr]\<rparr>) response')"
    by blast
  from tr rr have eq: "tr = ?batch" by (simp only: sum.inject)
  from step have "handle_tool_call (Suc 0) world0 chat0 \<lparr>gemini_calls = 1, sent = []\<rparr> round0
      = handle_tool_call 0 world0 chat0 \<lparr>gemini_calls = 2, sent = [?batch]\<rparr>
          \<lparr>function_calls = [], response_text = ''Vault v1.16.0 is the latest release.''\<rparr>"
    unfolding eq by (simp add: chat0_def numeral_2_eq_2)
  also have "\<dots> = Some (Inr (\<lparr>function_calls = [], response_text = ''Vault v1.16.0 is the latest release.''\<rparr>,
                   \<lparr>gemini_calls = 3, sent = [?batch]\<rparr>))"
    by (subst handle_tool_call.simps) (simp add: numeral_2_eq_2 numeral_3_eq_3)
  finally show ?thesis .
qed

end
